theory Spec2Isabelle
  imports Complex_Main "HOL-Library.Multiset"
begin

section \<open>Conventions of the embedding\<close>

text \<open>
  The development embeds the coordination logic of the low-code agent system:
  the workflow of \<^verbatim>\<open>src/graph/low_code_workflow.py\<close>, the developer agent of
  \<^verbatim>\<open>src/agents/low_code_developer.py\<close>, the knowledge manager of
  \<^verbatim>\<open>src/agents/knowledge_manager.py\<close> with the store of
  \<^verbatim>\<open>src/database/knowledge_store.py\<close>, and the models of \<^verbatim>\<open>src/models\<close>.

  \<^item> A pydantic class is a record. A field \<open>f\<close> of a class is the record field
    \<open>p_f\<close>, where the prefix \<open>p\<close> names the class (\<open>req\<close>, \<open>vr\<close>, \<open>op\<close>, \<open>sol\<close>,
    \<open>ke\<close>, \<open>tx\<close>, \<open>wf\<close>, \<open>dev\<close>, \<open>ks\<close>), because several classes share field
    names.
    Fields that no modelled function reads or writes (identifiers of sub-objects, tags,
    metadata, screenshots, time stamps other than \<open>created_at\<close>) are left out.
  \<^item> A Python \<open>float\<close> is the \<^typ>\<open>real\<close> number it stands for, and Python \<open>int\<close>
    is \<^typ>\<open>int\<close>. Comparisons are exact. The thresholds, sums and products of the
    workflow, the developer and the knowledge manager are taken exactly. The running
    rate of \<open>KnowledgeEntry.add_usage\<close>, which feeds each rounded result into the next
    call, is computed with the rounding of binary64 (\<open>round64\<close> below).
  \<^item> Objects are values. Where the source mutates an object that two places hold (the
    solution held by the workflow state and handed to an agent), the model returns the
    mutated object and stores it back.
  \<^item> An \<open>await\<close> of a collaborator is a call whose outcome is given: \<open>Inr v\<close> when it
    returns \<open>v\<close>, \<open>Inl e\<close> when it raises an exception whose \<open>str\<close> is \<open>e\<close>. Every
    \<open>try/except Exception\<close> of the source is a case distinction on such an outcome.
  \<^item> The source's message literals are Chinese text; the model carries an English
    rendering of each under a named constant. Logging is not modelled.
\<close>

section \<open>Models (src/models/low\_code\_models.py)\<close>

datatype RewardDecision = ACCEPTED | REJECTED | PENDING

record DevelopmentRequest =
  req_request_id :: string
  req_title :: string
  req_description :: string
  req_requirements :: "string list"

record ValidationResult =
  vr_is_valid :: bool
  vr_score :: real
  vr_issues :: "string list"
  vr_suggestions :: "string list"
  vr_validator_agent :: "string option"

record LowCodeOperation =
  op_target_element :: string
  op_execution_time :: "real option"
  op_success :: "bool option"
  op_error_message :: "string option"

record ImplementationSolution =
  sol_solution_id :: string
  sol_request_id :: string
  sol_title :: string
  sol_description :: "string option"
  sol_operations :: "LowCodeOperation list"
  sol_validation_result :: "ValidationResult option"
  sol_reward_decision :: RewardDecision
  sol_success_rate :: real
  sol_execution_time :: real
  sol_developer_agent :: "string option"
  sol_version :: int
  sol_created_at :: int

text \<open>
  \<open>RewardDecision.value\<close>: the string of an enumeration member.
\<close>

fun decision_value :: "RewardDecision \<Rightarrow> string" where
  "decision_value ACCEPTED = ''accepted''"
| "decision_value REJECTED = ''rejected''"
| "decision_value PENDING = ''pending''"

text \<open>
  \<open>ImplementationSolution.update_validation_result\<close> (the time stamp it also sets is not
  modelled).
\<close>

definition update_validation_result ::
  "ImplementationSolution \<Rightarrow> ValidationResult \<Rightarrow> ImplementationSolution" where
  "update_validation_result s r = s\<lparr>sol_validation_result := Some r\<rparr>"

text \<open>
  The constructor call \<open>ImplementationSolution(request_id=.., title=.., description=..,
  operations=[], reward_decision=.., developer_agent=..)\<close> with the defaults of the class
  for the other fields. The generated identifier and the creation time are inputs.
\<close>

definition new_solution ::
  "string \<Rightarrow> int \<Rightarrow> string \<Rightarrow> string \<Rightarrow> string option \<Rightarrow> string option \<Rightarrow> RewardDecision
     \<Rightarrow> ImplementationSolution" where
  "new_solution sid now rid ttl descr agent dec =
     \<lparr>sol_solution_id = sid, sol_request_id = rid, sol_title = ttl, sol_description = descr,
      sol_operations = [], sol_validation_result = None, sol_reward_decision = dec,
      sol_success_rate = 0, sol_execution_time = 0, sol_developer_agent = agent,
      sol_version = 1, sol_created_at = now\<rparr>"

section \<open>Workflow state and nodes (src/graph/low\_code\_workflow.py)\<close>

datatype WorkflowStage =
  INITIALIZATION | KNOWLEDGE_SEARCH | DEVELOPMENT | VALIDATION | REVIEW
  | KNOWLEDGE_UPDATE | COMPLETION

record LowCodeWorkflowState =
  wf_request :: "DevelopmentRequest option"
  wf_current_stage :: WorkflowStage
  wf_iteration_count :: int
  wf_max_iterations :: int
  wf_similar_solutions :: "ImplementationSolution list"
  wf_current_solution :: "ImplementationSolution option"
  wf_validation_result :: "ValidationResult option"
  wf_reward_decision :: RewardDecision
  wf_human_in_loop :: bool
  wf_auto_accept_threshold :: real
  wf_errors :: "string list"
  wf_warnings :: "string list"
  wf_final_solution :: "ImplementationSolution option"
  wf_workflow_completed :: bool
  wf_success :: bool

text \<open>
  \<open>LowCodeWorkflowState(request=request, human_in_loop=human_in_loop,
  current_stage=INITIALIZATION)\<close>, as \<open>execute\<close> builds it: every other field has the
  default of the class.
\<close>

definition initial_state :: "DevelopmentRequest \<Rightarrow> bool \<Rightarrow> LowCodeWorkflowState" where
  "initial_state request human_in_loop =
     \<lparr>wf_request = Some request, wf_current_stage = INITIALIZATION,
      wf_iteration_count = 0, wf_max_iterations = 3, wf_similar_solutions = [],
      wf_current_solution = None, wf_validation_result = None,
      wf_reward_decision = PENDING, wf_human_in_loop = human_in_loop,
      wf_auto_accept_threshold = 0.9, wf_errors = [], wf_warnings = [],
      wf_final_solution = None, wf_workflow_completed = False, wf_success = False\<rparr>"

definition msg_missing_request :: string where
  "msg_missing_request = ''missing development request''"

definition msg_search_failed :: string where
  "msg_search_failed = ''knowledge search failed: ''"

definition msg_development_failed :: string where
  "msg_development_failed = ''solution development failed''"

definition msg_develop_exception :: string where
  "msg_develop_exception = ''developing the solution failed: ''"

definition msg_nothing_to_validate :: string where
  "msg_nothing_to_validate = ''no solution to validate''"

definition msg_validate_exception :: string where
  "msg_validate_exception = ''validating the solution failed: ''"

definition msg_missing_solution_or_result :: string where
  "msg_missing_solution_or_result = ''missing solution or validation result''"

definition msg_nothing_to_store :: string where
  "msg_nothing_to_store = ''no solution to store''"

definition msg_knowledge_update_failed :: string where
  "msg_knowledge_update_failed = ''knowledge base update failed''"

definition msg_update_exception :: string where
  "msg_update_exception = ''updating the knowledge base failed: ''"

text \<open>Decimal rendering of a length, for the f-string of \<open>_search_knowledge\<close>.\<close>

fun digits_fuel :: "nat \<Rightarrow> nat \<Rightarrow> string" where
  "digits_fuel 0 n = []"
| "digits_fuel (Suc k) n =
     (if n < 10 then [char_of (48 + n)]
      else digits_fuel k (n div 10) @ [char_of (48 + n mod 10)])"

definition str_nat :: "nat \<Rightarrow> string" where
  "str_nat n = digits_fuel (Suc n) n"

definition msg_found_similar :: "nat \<Rightarrow> string" where
  "msg_found_similar n = ''found '' @ str_nat n @ '' similar solutions for reuse''"

text \<open>
  \<open>_initialize\<close>. The time stamp written into the request is not modelled.
\<close>

definition initialize :: "LowCodeWorkflowState \<Rightarrow> LowCodeWorkflowState" where
  "initialize state =
     (let state = state\<lparr>wf_current_stage := INITIALIZATION\<rparr> in
      case wf_request state of
        None \<Rightarrow> state\<lparr>wf_errors := wf_errors state @ [msg_missing_request]\<rparr>
      | Some r \<Rightarrow> state)"

text \<open>
  \<open>_search_knowledge\<close>. The argument \<open>call\<close> is the outcome of
  \<open>await knowledge_manager_agent.search_similar_solutions(state.request)\<close>.
\<close>

definition search_knowledge ::
  "LowCodeWorkflowState \<Rightarrow> string + ImplementationSolution list \<Rightarrow> LowCodeWorkflowState" where
  "search_knowledge state call =
     (let state = state\<lparr>wf_current_stage := KNOWLEDGE_SEARCH\<rparr> in
      case call of
        Inl e \<Rightarrow> state\<lparr>wf_errors := wf_errors state @ [msg_search_failed @ e]\<rparr>
      | Inr similar_solutions \<Rightarrow>
          (let state = state\<lparr>wf_similar_solutions := similar_solutions\<rparr> in
           if similar_solutions \<noteq> []
           then state\<lparr>wf_warnings :=
                  wf_warnings state @ [msg_found_similar (length similar_solutions)]\<rparr>
           else state))"

text \<open>
  \<open>_develop_solution\<close>. The argument \<open>call\<close> is the outcome of
  \<open>await low_code_developer_agent.develop(state.request)\<close>; the test
  \<open>solution and solution.operations\<close> holds for a solution object with a non-empty list.
\<close>

definition develop_solution ::
  "LowCodeWorkflowState \<Rightarrow> string + ImplementationSolution option \<Rightarrow> LowCodeWorkflowState" where
  "develop_solution state call =
     (let state = state\<lparr>wf_current_stage := DEVELOPMENT,
                        wf_iteration_count := wf_iteration_count state + 1\<rparr> in
      case call of
        Inl e \<Rightarrow> state\<lparr>wf_errors := wf_errors state @ [msg_develop_exception @ e]\<rparr>
      | Inr solution \<Rightarrow>
          (let state = state\<lparr>wf_current_solution := solution\<rparr> in
           case solution of
             None \<Rightarrow> state\<lparr>wf_errors := wf_errors state @ [msg_development_failed]\<rparr>
           | Some s \<Rightarrow>
               if sol_operations s \<noteq> [] then state
               else state\<lparr>wf_errors := wf_errors state @ [msg_development_failed]\<rparr>))"

text \<open>
  \<open>_validate_solution\<close>. The argument \<open>call\<close> maps the current solution to the outcome
  of \<open>await function_validator_agent.validate(state.current_solution)\<close>. The result is
  stored in the state and, by \<open>update_validation_result\<close>, in the solution object.
\<close>

definition validate_solution ::
  "LowCodeWorkflowState \<Rightarrow> (ImplementationSolution \<Rightarrow> string + ValidationResult)
     \<Rightarrow> LowCodeWorkflowState" where
  "validate_solution state call =
     (let state = state\<lparr>wf_current_stage := VALIDATION\<rparr> in
      case wf_current_solution state of
        None \<Rightarrow> state\<lparr>wf_errors := wf_errors state @ [msg_nothing_to_validate]\<rparr>
      | Some s \<Rightarrow>
          (case call s of
             Inl e \<Rightarrow> state\<lparr>wf_errors := wf_errors state @ [msg_validate_exception @ e]\<rparr>
           | Inr validation_result \<Rightarrow>
               state\<lparr>wf_validation_result := Some validation_result,
                     wf_current_solution := Some (update_validation_result s validation_result)\<rparr>))"

text \<open>
  \<open>_review_solution\<close>: the automatic decision. The three branches are the source's
  \<open>if / elif / else\<close>, in its order.
\<close>

definition review_solution :: "LowCodeWorkflowState \<Rightarrow> LowCodeWorkflowState" where
  "review_solution state =
     (let state = state\<lparr>wf_current_stage := REVIEW\<rparr> in
      case (wf_current_solution state, wf_validation_result state) of
        (Some s, Some r) \<Rightarrow>
          if vr_is_valid r \<and> vr_score r \<ge> wf_auto_accept_threshold state
          then state\<lparr>wf_reward_decision := ACCEPTED\<rparr>
          else if vr_is_valid r \<and> vr_score r \<ge> 0.7
          then (if wf_human_in_loop state
                then state\<lparr>wf_reward_decision := PENDING\<rparr>
                else state\<lparr>wf_reward_decision := ACCEPTED\<rparr>)
          else (if wf_iteration_count state < wf_max_iterations state
                then state\<lparr>wf_reward_decision := PENDING\<rparr>
                else state\<lparr>wf_reward_decision := REJECTED\<rparr>)
      | _ \<Rightarrow> state\<lparr>wf_errors := wf_errors state @ [msg_missing_solution_or_result]\<rparr>)"

text \<open>
  \<open>_update_knowledge\<close>. The argument \<open>call\<close> maps the solution and the decision to the
  outcome of \<open>await knowledge_manager_agent.store_solution(..)\<close>: the returned flag and
  the solution object as the call leaves it.
\<close>

definition update_knowledge ::
  "LowCodeWorkflowState
     \<Rightarrow> (ImplementationSolution \<Rightarrow> RewardDecision \<Rightarrow> string + bool \<times> ImplementationSolution)
     \<Rightarrow> LowCodeWorkflowState" where
  "update_knowledge state call =
     (let state = state\<lparr>wf_current_stage := KNOWLEDGE_UPDATE\<rparr> in
      case wf_current_solution state of
        None \<Rightarrow> state\<lparr>wf_errors := wf_errors state @ [msg_nothing_to_store]\<rparr>
      | Some s \<Rightarrow>
          (case call s (wf_reward_decision state) of
             Inl e \<Rightarrow> state\<lparr>wf_errors := wf_errors state @ [msg_update_exception @ e]\<rparr>
           | Inr (success, s') \<Rightarrow>
               (let state = state\<lparr>wf_current_solution := Some s'\<rparr> in
                if success then state
                else state\<lparr>wf_warnings := wf_warnings state @ [msg_knowledge_update_failed]\<rparr>)))"

text \<open>\<open>_finalize\<close>.\<close>

definition finalize :: "LowCodeWorkflowState \<Rightarrow> LowCodeWorkflowState" where
  "finalize state =
     (let state = state\<lparr>wf_current_stage := COMPLETION, wf_workflow_completed := True\<rparr> in
      if wf_current_solution state \<noteq> None \<and> wf_reward_decision state \<noteq> REJECTED
      then state\<lparr>wf_final_solution := wf_current_solution state, wf_success := True\<rparr>
      else state\<lparr>wf_success := False\<rparr>)"

text \<open>\<open>_handle_error\<close>.\<close>

definition handle_error :: "LowCodeWorkflowState \<Rightarrow> LowCodeWorkflowState" where
  "handle_error state = state\<lparr>wf_workflow_completed := True, wf_success := False\<rparr>"

subsection \<open>Conditional edges and the graph\<close>

definition after_development :: "LowCodeWorkflowState \<Rightarrow> string" where
  "after_development state =
     (if wf_errors state \<noteq> [] then ''error''
      else if (case wf_current_solution state of
                 None \<Rightarrow> True | Some s \<Rightarrow> sol_operations s = [])
      then (if wf_iteration_count state < wf_max_iterations state then ''retry''
            else ''error'')
      else ''validate'')"

definition after_validation :: "LowCodeWorkflowState \<Rightarrow> string" where
  "after_validation state =
     (if wf_errors state \<noteq> [] then ''error''
      else if wf_validation_result state = None then ''error''
      else ''review'')"

definition after_review :: "LowCodeWorkflowState \<Rightarrow> string" where
  "after_review state =
     (if wf_reward_decision state = ACCEPTED then ''accept''
      else if wf_reward_decision state = REJECTED then ''reject''
      else ''pending'')"

text \<open>
  The nodes of \<open>_build_workflow_graph\<close>, under the names they are registered with, and
  the end marker of the graph.
\<close>

datatype node =
  initialize_node | search_knowledge_node | develop_solution_node | validate_solution_node
  | review_solution_node | update_knowledge_node | finalize_node | handle_error_node | END

text \<open>
  The three edge tables given to \<open>add_conditional_edges\<close>, as association lists, and
  the lookup the graph does with the label a condition returns.
\<close>

definition development_edges :: "(string \<times> node) list" where
  "development_edges =
     [(''validate'', validate_solution_node), (''error'', handle_error_node),
      (''retry'', develop_solution_node)]"

definition validation_edges :: "(string \<times> node) list" where
  "validation_edges =
     [(''review'', review_solution_node), (''retry'', develop_solution_node),
      (''error'', handle_error_node)]"

definition review_edges :: "(string \<times> node) list" where
  "review_edges =
     [(''accept'', update_knowledge_node), (''reject'', develop_solution_node),
      (''pending'', finalize_node)]"

definition follow :: "(string \<times> node) list \<Rightarrow> string \<Rightarrow> node" where
  "follow edges label = (case map_of edges label of Some n \<Rightarrow> n | None \<Rightarrow> END)"

text \<open>
  The node entered after a node has run and returned \<open>state\<close>: the plain edges of
  \<open>add_edge\<close> and the conditional ones.
\<close>

fun next_node :: "node \<Rightarrow> LowCodeWorkflowState \<Rightarrow> node" where
  "next_node initialize_node state = search_knowledge_node"
| "next_node search_knowledge_node state = develop_solution_node"
| "next_node develop_solution_node state = follow development_edges (after_development state)"
| "next_node validate_solution_node state = follow validation_edges (after_validation state)"
| "next_node review_solution_node state = follow review_edges (after_review state)"
| "next_node update_knowledge_node state = finalize_node"
| "next_node handle_error_node state = finalize_node"
| "next_node finalize_node state = END"
| "next_node END state = END"

section \<open>Reward models (src/models/reward\_models.py)\<close>

datatype KnowledgeEntryType = SOLUTION_PATTERN | BEST_PRACTICE | COMMON_ISSUE | OPTIMIZATION_TIP

record KnowledgeEntry =
  ke_title :: string
  ke_description :: string
  ke_entry_type :: KnowledgeEntryType
  ke_related_solution_ids :: "string list"
  ke_usage_count :: int
  ke_success_rate :: real
  ke_quality_score :: real
  ke_is_verified :: bool

record RewardTransaction =
  tx_solution_id :: string
  tx_evaluation_id :: string
  tx_reward_points :: int
  tx_reward_type :: string
  tx_reward_reason :: string
  tx_status :: string

subsection \<open>Binary floating point\<close>

text \<open>
  A finite binary64 number is a real number \<open>m * 2\<^sup>q\<close> with an integer \<open>m\<close> of at most 53
  bits and \<open>q\<close> from -1074 up. An arithmetic operation of Python on floats returns the
  exact result rounded to the nearest such number, a tie going to the even \<open>m\<close>.
  \<open>bit_length\<close> is \<open>int.bit_length\<close>; \<open>exponent x\<close> is the \<open>e\<close> with
  \<open>2\<^sup>e \<le> x < 2\<^sup>e\<^sup>+\<^sup>1\<close> for a positive \<open>x\<close>; the spacing of the binary64 numbers around \<open>x\<close> is
  \<open>2\<^sup>e\<^sup>-\<^sup>5\<^sup>2\<close>, and \<open>2\<^sup>-\<^sup>1\<^sup>0\<^sup>7\<^sup>4\<close> below \<open>2\<^sup>-\<^sup>1\<^sup>0\<^sup>2\<^sup>2\<close>. Results of magnitude \<open>2\<^sup>1\<^sup>0\<^sup>2\<^sup>4\<close> and above,
  where binary64 overflows, are not represented: no value of the statements below
  exceeds \<open>2\<^sup>5\<^sup>3\<close>.
\<close>

fun bit_length :: "nat \<Rightarrow> nat" where
  "bit_length n = (if n = 0 then 0 else Suc (bit_length (n div 2)))"

declare bit_length.simps [simp del]

definition pow2 :: "int \<Rightarrow> real" where
  "pow2 e = (if 0 \<le> e then 2 ^ nat e else 1 / 2 ^ nat (- e))"

definition exponent :: "real \<Rightarrow> int" where
  "exponent x =
     (if 1 \<le> x then int (bit_length (nat \<lfloor>x\<rfloor>)) - 1
      else - int (bit_length (nat (\<lceil>1 / x\<rceil> - 1))))"

text \<open>The nearest integer, a tie going to the even one.\<close>

definition round_half_even :: "real \<Rightarrow> int" where
  "round_half_even y =
     (let f = \<lfloor>y\<rfloor> in
      if y - of_int f < 1 / 2 then f
      else if 1 / 2 < y - of_int f then f + 1
      else if even f then f else f + 1)"

definition round64 :: "real \<Rightarrow> real" where
  "round64 x =
     (if x = 0 then 0
      else (let e = max (exponent \<bar>x\<bar>) (- 1022);
                quantum = pow2 (e - 52)
            in sgn x * of_int (round_half_even (\<bar>x\<bar> / quantum)) * quantum))"

text \<open>
  The conversion of an \<open>int\<close> operand, and the operations \<open>*\<close>, \<open>+\<close> and \<open>/\<close> on floats;
  \<open>/\<close> raises \<open>ZeroDivisionError\<close> for a zero divisor.
\<close>

definition float_of_int :: "int \<Rightarrow> real" where
  "float_of_int n = round64 (of_int n)"

definition float_mul :: "real \<Rightarrow> real \<Rightarrow> real" where
  "float_mul x y = round64 (x * y)"

definition float_add :: "real \<Rightarrow> real \<Rightarrow> real" where
  "float_add x y = round64 (x + y)"

definition float_div :: "real \<Rightarrow> real \<Rightarrow> string + real" where
  "float_div x y = (if y = 0 then Inl ''float division by zero'' else Inr (round64 (x / y)))"

subsection \<open>Usage statistics\<close>

text \<open>
  \<open>KnowledgeEntry.add_usage\<close>: the running success rate. The first use sets the rate,
  every later use rebuilds the count of successes from the stored rate. The result is
  \<open>Inr\<close> of the entry as the call leaves it, \<open>Inl\<close> of the exception that the division
  raises when the incremented count is 0. The time stamp \<open>last_used_at\<close> is not
  modelled.
\<close>

definition add_usage :: "KnowledgeEntry \<Rightarrow> bool \<Rightarrow> string + KnowledgeEntry" where
  "add_usage entry success =
     (let entry = entry\<lparr>ke_usage_count := ke_usage_count entry + 1\<rparr> in
      if ke_usage_count entry = 1
      then Inr (entry\<lparr>ke_success_rate := (if success then 1 else 0)\<rparr>)
      else
        (let current_successes =
               float_mul (ke_success_rate entry) (float_of_int (ke_usage_count entry - 1));
             current_successes =
               (if success then float_add current_successes 1 else current_successes)
         in case float_div current_successes (float_of_int (ke_usage_count entry)) of
              Inl e \<Rightarrow> Inl e
            | Inr rate \<Rightarrow> Inr (entry\<lparr>ke_success_rate := rate\<rparr>)))"

text \<open>
  A sequence of calls of \<open>add_usage\<close> on one entry, in order, up to the first call that
  raises.
\<close>

fun add_usages :: "KnowledgeEntry \<Rightarrow> bool list \<Rightarrow> string + KnowledgeEntry" where
  "add_usages entry [] = Inr entry"
| "add_usages entry (success # calls) =
     (case add_usage entry success of
        Inl e \<Rightarrow> Inl e
      | Inr entry \<Rightarrow> add_usages entry calls)"

text \<open>
  \<open>KnowledgeEntryType(text)\<close>: the member with that value; any other text raises
  \<open>ValueError\<close>.
\<close>

definition entry_type_of :: "string \<Rightarrow> KnowledgeEntryType option" where
  "entry_type_of text =
     (if text = ''solution_pattern'' then Some SOLUTION_PATTERN
      else if text = ''best_practice'' then Some BEST_PRACTICE
      else if text = ''common_issue'' then Some COMMON_ISSUE
      else if text = ''optimization_tip'' then Some OPTIMIZATION_TIP
      else None)"

section \<open>Knowledge store (src/database/knowledge\_store.py)\<close>

text \<open>
  The store is the table of solutions and the table of knowledge entries. A database
  session either works or raises; the flag \<open>db\<close> of the functions below says which.
  Every method of the class catches what its session raises. A second row with the
  primary key of an existing row is refused by the database, which the method sees as
  an exception as well.
\<close>

record KnowledgeStore =
  ks_solutions :: "ImplementationSolution list"
  ks_entries :: "KnowledgeEntry list"

definition ks_store_solution ::
  "KnowledgeStore \<Rightarrow> bool \<Rightarrow> ImplementationSolution \<Rightarrow> bool \<times> KnowledgeStore" where
  "ks_store_solution store db solution =
     (if db \<and> sol_solution_id solution \<notin> sol_solution_id ` set (ks_solutions store)
      then (True, store\<lparr>ks_solutions := ks_solutions store @ [solution]\<rparr>)
      else (False, store))"

text \<open>
  \<open>search_solutions\<close>: the accepted rows, at most \<open>limit\<close> of them, in the order of the
  table. The keywords and requirements are not used by the source.
\<close>

definition ks_search_solutions ::
  "KnowledgeStore \<Rightarrow> bool \<Rightarrow> string list \<Rightarrow> string list \<Rightarrow> nat \<Rightarrow> ImplementationSolution list" where
  "ks_search_solutions store db keywords requirements limit =
     (if db then take limit (filter (\<lambda>s. sol_reward_decision s = ACCEPTED) (ks_solutions store))
      else [])"

definition ks_store_knowledge_entry ::
  "KnowledgeStore \<Rightarrow> bool \<Rightarrow> KnowledgeEntry \<Rightarrow> bool \<times> KnowledgeStore" where
  "ks_store_knowledge_entry store db entry =
     (if db then (True, store\<lparr>ks_entries := ks_entries store @ [entry]\<rparr>) else (False, store))"

text \<open>
  \<open>store_reward_transaction\<close> keeps nothing and answers \<open>True\<close>; the store is unchanged.
\<close>

definition ks_store_reward_transaction :: "KnowledgeStore \<Rightarrow> RewardTransaction \<Rightarrow> bool" where
  "ks_store_reward_transaction store transaction = True"

text \<open>
  The methods that the class \<open>KnowledgeStore\<close> defines. Reading any other attribute of
  an instance raises \<open>AttributeError\<close>.
\<close>

definition KnowledgeStore_methods :: "string list" where
  "KnowledgeStore_methods =
     [''initialize'', ''store_solution'', ''get_solution'', ''search_solutions'',
      ''store_knowledge_entry'', ''get_knowledge_entries'', ''store_evaluation'',
      ''store_version'', ''store_reward_transaction'', ''get_reward_criteria'',
      ''_convert_to_solution'']"

definition store_attribute :: "string \<Rightarrow> string + string" where
  "store_attribute name =
     (if name \<in> set KnowledgeStore_methods then Inr name
      else Inl (''KnowledgeStore object has no attribute '' @ name))"

text \<open>
  Modelled from the spec: \<open>get_solutions_before_date\<close> and \<open>delete_solution\<close>, which
  the knowledge manager calls and the class does not define. The Store port is CRUD
  over solutions: the first returns the rows created before the date, the second
  removes the row with the identifier.
\<close>

definition ks_get_solutions_before_date ::
  "KnowledgeStore \<Rightarrow> int \<Rightarrow> ImplementationSolution list" where
  "ks_get_solutions_before_date store cutoff_date =
     filter (\<lambda>s. sol_created_at s < cutoff_date) (ks_solutions store)"

definition ks_delete_solution :: "KnowledgeStore \<Rightarrow> string \<Rightarrow> KnowledgeStore" where
  "ks_delete_solution store solution_id =
     store\<lparr>ks_solutions := filter (\<lambda>s. sol_solution_id s \<noteq> solution_id) (ks_solutions store)\<rparr>"

section \<open>Knowledge manager (src/agents/knowledge\_manager.py)\<close>

subsection \<open>Similarity ranking\<close>

text \<open>
  \<open>str.lower\<close> and \<open>str.split\<close> on ASCII text: the letters \<open>A\<close> to \<open>Z\<close> are mapped to
  \<open>a\<close> to \<open>z\<close>; the text is cut at runs of white space (tab, line feed, vertical tab,
  form feed, carriage return, the four separators 28 to 31, space) and no empty word
  is returned.
\<close>

definition lower_char :: "char \<Rightarrow> char" where
  "lower_char c =
     (let n = (of_char c :: nat) in if 65 \<le> n \<and> n \<le> 90 then char_of (n + 32) else c)"

definition lower :: "string \<Rightarrow> string" where
  "lower text = map lower_char text"

definition is_space :: "char \<Rightarrow> bool" where
  "is_space c = ((of_char c :: nat) \<in> {9, 10, 11, 12, 13, 28, 29, 30, 31, 32})"

fun split_from :: "string \<Rightarrow> string \<Rightarrow> string list" where
  "split_from word [] = (if word = [] then [] else [word])"
| "split_from word (c # cs) =
     (if is_space c then (if word = [] then split_from [] cs else word # split_from [] cs)
      else split_from (word @ [c]) cs)"

definition split :: "string \<Rightarrow> string list" where
  "split text = split_from [] text"

text \<open>
  \<open>_text_similarity\<close>. The description of a stored solution may be \<open>None\<close>; \<open>lower\<close> of
  \<open>None\<close> raises, and the handler of the function answers 0.
\<close>

definition text_similarity :: "string \<Rightarrow> string option \<Rightarrow> real" where
  "text_similarity text1 text2 =
     (case text2 of
        None \<Rightarrow> 0
      | Some text2 \<Rightarrow>
          (let words1 = set (split (lower text1));
               words2 = set (split (lower text2));
               intersection = words1 \<inter> words2;
               union = words1 \<union> words2
           in if card union = 0 then 0 else real (card intersection) / real (card union)))"

text \<open>\<open>_calculate_similarity\<close>.\<close>

definition calculate_similarity :: "DevelopmentRequest \<Rightarrow> ImplementationSolution \<Rightarrow> real" where
  "calculate_similarity request solution =
     (let title_similarity = text_similarity (req_title request) (Some (sol_title solution));
          desc_similarity = text_similarity (req_description request) (sol_description solution);
          similarity = title_similarity * 0.6 + desc_similarity * 0.4
      in similarity * sol_success_rate solution)"

text \<open>
  \<open>_rank_solutions_by_similarity\<close>. \<open>list.sort(key=.., reverse=True)\<close> is stable: it
  orders by descending key and leaves equal keys in their order, which is the stable
  ascending sort by the negated key.
\<close>

definition rank_solutions_by_similarity ::
  "DevelopmentRequest \<Rightarrow> ImplementationSolution list \<Rightarrow> ImplementationSolution list" where
  "rank_solutions_by_similarity request solutions =
     (let scored_solutions = map (\<lambda>solution. (solution, calculate_similarity request solution)) solutions
      in map fst (sort_key (\<lambda>x. - snd x) scored_solutions))"

text \<open>
  \<open>_extract_keywords\<close>: the keywords that the completion call yields, the title when the
  call raises. \<open>search_similar_solutions\<close>: extract, search the store with limit 5, rank.
  No step of it raises, so its own handler, which answers the empty list, is not entered.
\<close>

definition extract_keywords :: "DevelopmentRequest \<Rightarrow> string + string list \<Rightarrow> string list" where
  "extract_keywords request completion =
     (case completion of Inl e \<Rightarrow> [req_title request] | Inr keywords \<Rightarrow> keywords)"

definition search_similar_solutions ::
  "KnowledgeStore \<Rightarrow> bool \<Rightarrow> string + string list \<Rightarrow> DevelopmentRequest
     \<Rightarrow> ImplementationSolution list" where
  "search_similar_solutions store db completion request =
     (let keywords = extract_keywords request completion;
          similar_solutions = ks_search_solutions store db keywords (req_requirements request) 5
      in rank_solutions_by_similarity request similar_solutions)"



subsection \<open>Storing a solution\<close>

text \<open>
  The data that \<open>create_knowledge_entry\<close> reads from the completion: each key may be
  missing.
\<close>

record knowledge_data =
  kd_title :: "string option"
  kd_description :: "string option"
  kd_entry_type :: "string option"

text \<open>
  \<open>create_knowledge_entry\<close>. Only an accepted solution is distilled. The completion call
  may raise; a missing title or description falls back to the solution's; an unknown
  entry type and a missing description make the constructor raise. Whatever raises, the
  function answers \<open>None\<close> and the store is unchanged.
\<close>

definition create_knowledge_entry ::
  "KnowledgeStore \<Rightarrow> bool \<Rightarrow> string + knowledge_data \<Rightarrow> ImplementationSolution
     \<Rightarrow> KnowledgeEntry option \<times> KnowledgeStore" where
  "create_knowledge_entry store db completion solution =
     (if sol_reward_decision solution \<noteq> ACCEPTED then (None, store)
      else case completion of
        Inl e \<Rightarrow> (None, store)
      | Inr data \<Rightarrow>
          (case (entry_type_of (case kd_entry_type data of None \<Rightarrow> ''solution_pattern'' | Some t \<Rightarrow> t),
                 (case kd_description data of None \<Rightarrow> sol_description solution | Some d \<Rightarrow> Some d)) of
             (Some entry_type, Some description) \<Rightarrow>
               (let entry =
                      \<lparr>ke_title = (case kd_title data of None \<Rightarrow> sol_title solution | Some t \<Rightarrow> t),
                       ke_description = description,
                       ke_entry_type = entry_type,
                       ke_related_solution_ids = [sol_solution_id solution],
                       ke_usage_count = 0, ke_success_rate = 0,
                       ke_quality_score = sol_success_rate solution,
                       ke_is_verified = True\<rparr>
                in (Some entry, snd (ks_store_knowledge_entry store db entry)))
           | _ \<Rightarrow> (None, store)))"

definition msg_rejected_by_user :: string where
  "msg_rejected_by_user = ''solution rejected by the user''"

text \<open>\<open>_handle_accepted_solution\<close>, \<open>_handle_rejected_solution\<close>, \<open>_handle_pending_solution\<close>.\<close>

definition handle_accepted_solution ::
  "KnowledgeStore \<Rightarrow> bool \<Rightarrow> string + knowledge_data \<Rightarrow> ImplementationSolution
     \<Rightarrow> ImplementationSolution \<times> KnowledgeStore" where
  "handle_accepted_solution store db completion solution =
     (let solution = solution\<lparr>sol_success_rate := min 1.0 (sol_success_rate solution + 0.1)\<rparr>
      in (solution, snd (create_knowledge_entry store db completion solution)))"

definition handle_rejected_solution :: "ImplementationSolution \<Rightarrow> ImplementationSolution" where
  "handle_rejected_solution solution =
     (let solution = solution\<lparr>sol_success_rate := max 0.0 (sol_success_rate solution - 0.1)\<rparr>
      in case sol_validation_result solution of
           None \<Rightarrow> solution
         | Some r \<Rightarrow>
             solution\<lparr>sol_validation_result :=
               Some (r\<lparr>vr_issues := vr_issues r @ [msg_rejected_by_user]\<rparr>)\<rparr>)"

definition handle_pending_solution :: "ImplementationSolution \<Rightarrow> ImplementationSolution" where
  "handle_pending_solution solution = solution"

definition msg_reward_reason :: string where
  "msg_reward_reason = ''solution ''"

text \<open>
  \<open>_record_reward_transaction\<close>: the transaction that is built and handed to
  \<open>store_reward_transaction\<close>.
\<close>

definition record_reward_transaction ::
  "ImplementationSolution \<Rightarrow> RewardDecision \<Rightarrow> RewardTransaction" where
  "record_reward_transaction solution decision =
     (let transaction =
            \<lparr>tx_solution_id = sol_solution_id solution, tx_evaluation_id = [],
             tx_reward_points = 0, tx_reward_type = decision_value decision,
             tx_reward_reason = msg_reward_reason @ decision_value decision,
             tx_status = ''processed''\<rparr>
      in if decision = ACCEPTED then transaction\<lparr>tx_reward_points := 100\<rparr>
         else if decision = REJECTED then transaction\<lparr>tx_reward_points := - 50\<rparr>
         else transaction\<lparr>tx_reward_points := 0\<rparr>)"

text \<open>
  \<open>store_solution\<close>. Its outcome: the flag it returns, the solution object as it leaves
  it, the store, and the transactions handed to the store. No call inside raises (the
  store and \<open>create_knowledge_entry\<close> catch their own exceptions), so the handler that
  answers \<open>False\<close> is not entered.
\<close>

record store_outcome =
  so_result :: bool
  so_solution :: ImplementationSolution
  so_store :: KnowledgeStore
  so_transactions :: "RewardTransaction list"

definition store_solution ::
  "KnowledgeStore \<Rightarrow> bool \<Rightarrow> string + knowledge_data \<Rightarrow> ImplementationSolution
     \<Rightarrow> RewardDecision \<Rightarrow> store_outcome" where
  "store_solution store db completion solution reward_decision =
     (let solution = solution\<lparr>sol_reward_decision := reward_decision\<rparr>;
          (solution, store) =
             (if reward_decision = ACCEPTED
              then handle_accepted_solution store db completion solution
              else if reward_decision = REJECTED
              then (handle_rejected_solution solution, store)
              else (handle_pending_solution solution, store));
          store = snd (ks_store_solution store db solution);
          transaction = record_reward_transaction solution reward_decision
      in \<lparr>so_result = True, so_solution = solution, so_store = store,
          so_transactions = [transaction]\<rparr>)"

subsection \<open>Cleaning up old solutions\<close>

text \<open>
  \<open>cleanup_old_solutions\<close>. Times are in seconds; \<open>timedelta(days=d)\<close> is \<open>86400 * d\<close>.
  The loop deletes the rejected solutions among those the store returns. The function
  first reads the attribute \<open>get_solutions_before_date\<close> of the store; when that raises,
  the handler answers 0 and nothing was deleted.
\<close>

fun cleanup_loop :: "KnowledgeStore \<Rightarrow> ImplementationSolution list \<Rightarrow> int \<Rightarrow> int \<times> KnowledgeStore" where
  "cleanup_loop store [] cleaned_count = (cleaned_count, store)"
| "cleanup_loop store (solution # old_solutions) cleaned_count =
     (if sol_reward_decision solution = REJECTED
      then cleanup_loop (ks_delete_solution store (sol_solution_id solution)) old_solutions
             (cleaned_count + 1)
      else cleanup_loop store old_solutions cleaned_count)"

definition cleanup_old_solutions :: "KnowledgeStore \<Rightarrow> int \<Rightarrow> int \<Rightarrow> int \<times> KnowledgeStore" where
  "cleanup_old_solutions store now retention_days =
     (let cutoff_date = now - 86400 * retention_days in
      case store_attribute ''get_solutions_before_date'' of
        Inl e \<Rightarrow> (0, store)
      | Inr m \<Rightarrow> cleanup_loop store (ks_get_solutions_before_date store cutoff_date) 0)"

section \<open>Developer agent (src/agents/low\_code\_developer.py)\<close>

text \<open>
  The state of the developer graph. The session is its platform URL, a checkpoint is the
  operation index it was taken at. \<open>develop\<close> always supplies the request and a solution,
  so the two are not optional here.
\<close>

record LowCodeDeveloperState =
  dev_request :: DevelopmentRequest
  dev_solution :: ImplementationSolution
  dev_current_operation_index :: int
  dev_session_info :: "string option"
  dev_error_count :: int
  dev_max_errors :: int
  dev_checkpoints :: "int list"
  dev_is_authenticated :: bool

text \<open>
  What the collaborators of one run answer. The index of a call is the number of nodes
  of the developer graph that ran before it.
  \<^item> \<open>dp_analysis\<close>: the completion and parsing of \<open>_analyze_request\<close>: the description
    built from the analysis, or an exception.
  \<^item> \<open>dp_plan\<close>: the operations that \<open>_plan_implementation\<close> appends, and the exception
    that ends the planning, if one is raised.
  \<^item> \<open>dp_login\<close>: initialising the tools, reading the credentials and logging in:
    the platform URL of the session, or the exception of a failed step.
  \<^item> \<open>dp_operation\<close>: the body of \<open>_execute_operations\<close> for the current operation.
  \<^item> \<open>dp_judgement\<close>: the screenshot and its analysis in \<open>_validate_result\<close>: whether a
    suggestion holds a success indicator, the confidence score and the suggestions.
  \<^item> \<open>dp_navigate\<close>: the navigation of the rollback in \<open>_handle_error\<close>.
\<close>

datatype operation_outcome =
  Checkpoint_raised string
  | Raised_after_checkpoint LowCodeOperation string
  | Executed LowCodeOperation bool

record developer_ports =
  dp_analysis :: "string + string"
  dp_plan :: "LowCodeOperation list \<times> string option"
  dp_login :: "nat \<Rightarrow> string + string"
  dp_operation :: "nat \<Rightarrow> LowCodeOperation \<Rightarrow> operation_outcome"
  dp_judgement :: "nat \<Rightarrow> string + bool \<times> real \<times> string list"
  dp_navigate :: "nat \<Rightarrow> string + unit"

definition count_error :: "LowCodeDeveloperState \<Rightarrow> LowCodeDeveloperState" where
  "count_error state = state\<lparr>dev_error_count := dev_error_count state + 1\<rparr>"

definition set_solution ::
  "LowCodeDeveloperState \<Rightarrow> (ImplementationSolution \<Rightarrow> ImplementationSolution)
     \<Rightarrow> LowCodeDeveloperState" where
  "set_solution state f = state\<lparr>dev_solution := f (dev_solution state)\<rparr>"

text \<open>\<open>_analyze_request\<close>.\<close>

definition analyze_request :: "LowCodeDeveloperState \<Rightarrow> string + string \<Rightarrow> LowCodeDeveloperState" where
  "analyze_request state call =
     (case call of
        Inl e \<Rightarrow> count_error state
      | Inr description \<Rightarrow> set_solution state (\<lambda>s. s\<lparr>sol_description := Some description\<rparr>))"

text \<open>\<open>_plan_implementation\<close>: operations are appended one by one until planning ends.\<close>

definition plan_implementation ::
  "LowCodeDeveloperState \<Rightarrow> LowCodeOperation list \<times> string option \<Rightarrow> LowCodeDeveloperState" where
  "plan_implementation state call =
     (let state = set_solution state (\<lambda>s. s\<lparr>sol_operations := sol_operations s @ fst call\<rparr>)
      in case snd call of None \<Rightarrow> state | Some e \<Rightarrow> count_error state)"

text \<open>\<open>_authenticate\<close>.\<close>

definition authenticate :: "LowCodeDeveloperState \<Rightarrow> string + string \<Rightarrow> LowCodeDeveloperState" where
  "authenticate state call =
     (if dev_is_authenticated state then state
      else case call of
        Inl e \<Rightarrow> count_error state
      | Inr platform_url \<Rightarrow>
          state\<lparr>dev_is_authenticated := True, dev_session_info := Some platform_url\<rparr>)"

text \<open>
  The position that Python's list indexing reads for an integer index: a negative index
  counts from the end, an index outside the list raises \<open>IndexError\<close>.
\<close>

definition list_position :: "'a list \<Rightarrow> int \<Rightarrow> nat option" where
  "list_position xs i =
     (if 0 \<le> i \<and> i < int (length xs) then Some (nat i)
      else if - int (length xs) \<le> i \<and> i < 0 then Some (nat (int (length xs) + i))
      else None)"

text \<open>
  \<open>_execute_operations\<close>: one operation per call. The checkpoint is appended before the
  operation runs; the operation object is the one in the solution's list, so what the
  browser writes into it stays there. Success advances the index; failure and any
  exception count an error and leave the index.
\<close>

definition execute_operations ::
  "LowCodeDeveloperState \<Rightarrow> (LowCodeOperation \<Rightarrow> operation_outcome) \<Rightarrow> LowCodeDeveloperState" where
  "execute_operations state call =
     (let operations = sol_operations (dev_solution state);
          index = dev_current_operation_index state
      in if index \<ge> int (length operations) then state
         else case list_position operations index of
           None \<Rightarrow> count_error state
         | Some i \<Rightarrow>
             (case call (operations ! i) of
                Checkpoint_raised e \<Rightarrow> count_error state
              | Raised_after_checkpoint current_op e \<Rightarrow>
                  count_error
                    (set_solution (state\<lparr>dev_checkpoints := dev_checkpoints state @ [index]\<rparr>)
                       (\<lambda>s. s\<lparr>sol_operations := operations[i := current_op]\<rparr>))
              | Executed current_op success \<Rightarrow>
                  (let state =
                         set_solution (state\<lparr>dev_checkpoints := dev_checkpoints state @ [index]\<rparr>)
                           (\<lambda>s. s\<lparr>sol_operations := operations[i := current_op]\<rparr>)
                   in if success
                      then state\<lparr>dev_current_operation_index := index + 1\<rparr>
                      else count_error state)))"

definition msg_result_not_as_expected :: string where
  "msg_result_not_as_expected = ''the result does not meet the expectation''"

text \<open>\<open>_validate_result\<close>.\<close>

definition validate_result ::
  "LowCodeDeveloperState \<Rightarrow> string + bool \<times> real \<times> string list \<Rightarrow> LowCodeDeveloperState" where
  "validate_result state call =
     (case call of
        Inl e \<Rightarrow> count_error state
      | Inr (is_success, confidence_score, suggestions) \<Rightarrow>
          if is_success \<or> confidence_score > 0.7
          then set_solution state (\<lambda>s. s\<lparr>sol_validation_result :=
                 Some \<lparr>vr_is_valid = True, vr_score = confidence_score, vr_issues = [],
                       vr_suggestions = suggestions, vr_validator_agent = None\<rparr>\<rparr>)
          else set_solution state (\<lambda>s. s\<lparr>sol_validation_result :=
                 Some \<lparr>vr_is_valid = False, vr_score = confidence_score,
                       vr_issues = [msg_result_not_as_expected],
                       vr_suggestions = suggestions, vr_validator_agent = None\<rparr>\<rparr>))"

text \<open>\<open>_handle_error\<close> of the developer graph.\<close>

definition dev_handle_error :: "LowCodeDeveloperState \<Rightarrow> string + unit \<Rightarrow> LowCodeDeveloperState" where
  "dev_handle_error state call =
     (if dev_error_count state \<ge> dev_max_errors state
      then set_solution state (\<lambda>s. s\<lparr>sol_reward_decision := REJECTED\<rparr>)
      else if dev_checkpoints state \<noteq> [] \<and> dev_current_operation_index state > 0
      then (case call of
              Inl e \<Rightarrow> set_solution state (\<lambda>s. s\<lparr>sol_reward_decision := REJECTED\<rparr>)
            | Inr u \<Rightarrow>
                state\<lparr>dev_current_operation_index :=
                        max 0 (dev_current_operation_index state - 1)\<rparr>)
      else state)"

text \<open>
  \<open>_finalize_solution\<close>. \<open>op.success is True\<close> holds for \<open>Some True\<close> only;
  \<open>op.execution_time or 0\<close> is 0 for a missing time. Closing the tools catches its own
  exceptions, so the handler of the node is not entered.
\<close>

definition finalize_solution :: "LowCodeDeveloperState \<Rightarrow> LowCodeDeveloperState" where
  "finalize_solution state =
     (let operations = sol_operations (dev_solution state);
          successful_operations = length (filter (\<lambda>op. op_success op = Some True) operations);
          total_operations = length operations;
          state = set_solution state (\<lambda>s. s\<lparr>sol_success_rate :=
                    (if total_operations > 0
                     then real successful_operations / real total_operations else 0)\<rparr>);
          valid = (case sol_validation_result (dev_solution state) of
                     None \<Rightarrow> False | Some r \<Rightarrow> vr_is_valid r);
          state = set_solution state (\<lambda>s. s\<lparr>sol_reward_decision :=
                    (if valid
                     then (if sol_success_rate (dev_solution state) \<ge> 0.8
                           then ACCEPTED else PENDING)
                     else REJECTED)\<rparr>);
          total_time = sum_list (map (\<lambda>op. case op_execution_time op of
                                             None \<Rightarrow> 0 | Some t \<Rightarrow> t) operations)
      in set_solution state (\<lambda>s. s\<lparr>sol_execution_time := total_time\<rparr>))"

subsection \<open>Conditional edges and the developer graph\<close>

definition should_continue_after_auth :: "LowCodeDeveloperState \<Rightarrow> string" where
  "should_continue_after_auth state =
     (if dev_is_authenticated state then ''continue''
      else if dev_error_count state < dev_max_errors state then ''retry''
      else ''error'')"

definition should_continue_execution :: "LowCodeDeveloperState \<Rightarrow> string" where
  "should_continue_execution state =
     (if dev_error_count state \<ge> dev_max_errors state then ''error''
      else if dev_current_operation_index state
                \<ge> int (length (sol_operations (dev_solution state)))
      then ''validate''
      else ''continue'')"

definition should_continue_after_validation :: "LowCodeDeveloperState \<Rightarrow> string" where
  "should_continue_after_validation state =
     (if dev_error_count state \<ge> dev_max_errors state then ''error''
      else if (case sol_validation_result (dev_solution state) of
                 None \<Rightarrow> False | Some r \<Rightarrow> vr_is_valid r)
      then ''success''
      else if dev_error_count state < dev_max_errors state div 2 then ''retry''
      else ''error'')"

datatype dev_node =
  analyze_request_node | plan_implementation_node | authenticate_node
  | execute_operations_node | validate_result_node | dev_handle_error_node
  | finalize_solution_node | DEV_END

definition auth_edges :: "(string \<times> dev_node) list" where
  "auth_edges =
     [(''continue'', execute_operations_node), (''retry'', authenticate_node),
      (''error'', dev_handle_error_node)]"

definition execution_edges :: "(string \<times> dev_node) list" where
  "execution_edges =
     [(''continue'', execute_operations_node), (''validate'', validate_result_node),
      (''error'', dev_handle_error_node)]"

definition result_edges :: "(string \<times> dev_node) list" where
  "result_edges =
     [(''success'', finalize_solution_node), (''retry'', execute_operations_node),
      (''error'', dev_handle_error_node)]"

definition dev_follow :: "(string \<times> dev_node) list \<Rightarrow> string \<Rightarrow> dev_node" where
  "dev_follow edges label = (case map_of edges label of Some n \<Rightarrow> n | None \<Rightarrow> DEV_END)"

fun dev_next_node :: "dev_node \<Rightarrow> LowCodeDeveloperState \<Rightarrow> dev_node" where
  "dev_next_node analyze_request_node state = plan_implementation_node"
| "dev_next_node plan_implementation_node state = authenticate_node"
| "dev_next_node authenticate_node state = dev_follow auth_edges (should_continue_after_auth state)"
| "dev_next_node execute_operations_node state =
     dev_follow execution_edges (should_continue_execution state)"
| "dev_next_node validate_result_node state =
     dev_follow result_edges (should_continue_after_validation state)"
| "dev_next_node dev_handle_error_node state = finalize_solution_node"
| "dev_next_node finalize_solution_node state = DEV_END"
| "dev_next_node DEV_END state = DEV_END"

text \<open>Running one node; \<open>n\<close> is the number of nodes that ran before it.\<close>

fun dev_run_node ::
  "developer_ports \<Rightarrow> nat \<Rightarrow> dev_node \<Rightarrow> LowCodeDeveloperState \<Rightarrow> LowCodeDeveloperState" where
  "dev_run_node P n analyze_request_node state = analyze_request state (dp_analysis P)"
| "dev_run_node P n plan_implementation_node state = plan_implementation state (dp_plan P)"
| "dev_run_node P n authenticate_node state = authenticate state (dp_login P n)"
| "dev_run_node P n execute_operations_node state = execute_operations state (dp_operation P n)"
| "dev_run_node P n validate_result_node state = validate_result state (dp_judgement P n)"
| "dev_run_node P n dev_handle_error_node state = dev_handle_error state (dp_navigate P n)"
| "dev_run_node P n finalize_solution_node state = finalize_solution state"
| "dev_run_node P n DEV_END state = state"

text \<open>
  The graph engine is the library that \<open>StateGraph\<close> and \<open>ainvoke\<close> come from; it is
  not part of the source. What it does is taken as follows. It runs the entry node and
  then the node that the edge of the last node leads to, one node per step, until the
  end marker. When the number of steps reaches its recursion limit before the end
  marker, it gives up and \<open>ainvoke\<close> raises; the source passes no configuration to
  \<open>ainvoke\<close>, so the limit is the engine's default (25 in its documentation). The final
  state that \<open>ainvoke\<close> returns either carries the fields of the state as attributes
  or, being a mapping, does not, and then every \<open>hasattr\<close> test on it fails. The limit
  and that shape are parameters of the model.
\<close>

record engine =
  eng_recursion_limit :: nat
  eng_state_attributes :: bool

definition msg_recursion_limit :: string where
  "msg_recursion_limit = ''recursion limit reached without hitting a stop condition''"

text \<open>
  The developer graph on the engine: the final state and the number of nodes that ran,
  or \<open>None\<close> when the engine gives up at the limit.
\<close>

fun dev_run ::
  "nat \<Rightarrow> developer_ports \<Rightarrow> nat \<Rightarrow> dev_node \<Rightarrow> LowCodeDeveloperState
     \<Rightarrow> (nat \<times> LowCodeDeveloperState) option" where
  "dev_run 0 P n node state = (if node = DEV_END then Some (n, state) else None)"
| "dev_run (Suc limit) P n node state =
     (if node = DEV_END then Some (n, state)
      else (let state = dev_run_node P n node state
            in dev_run limit P (Suc n) (dev_next_node node state) state))"

definition msg_plan_title :: string where
  "msg_plan_title = ''implementation plan: ''"

definition msg_generated_plan :: string where
  "msg_generated_plan = ''implementation plan generated from the requirements''"

definition msg_failed_title :: string where
  "msg_failed_title = ''failed plan: ''"

definition msg_agent_failed :: string where
  "msg_agent_failed = ''agent execution failed''"

definition msg_development_error :: string where
  "msg_development_error = ''development failed: ''"

definition develop_initial_state ::
  "string \<Rightarrow> int \<Rightarrow> DevelopmentRequest \<Rightarrow> LowCodeDeveloperState" where
  "develop_initial_state solution_id now request =
     \<lparr>dev_request = request,
      dev_solution =
        new_solution solution_id now (req_request_id request)
          (msg_plan_title @ req_title request) (Some msg_generated_plan)
          (Some ''low_code_developer'') PENDING,
      dev_current_operation_index = 0, dev_session_info = None, dev_error_count = 0,
      dev_max_errors = 5, dev_checkpoints = [], dev_is_authenticated = False\<rparr>"

text \<open>
  \<open>develop\<close>: the initial state, the graph on the engine, and what is returned. No
  node raises, so the only exception of \<open>ainvoke\<close> is the engine's at its limit; the
  handler of \<open>develop\<close> answers a rejected solution without operations whose
  description carries the exception. When \<open>ainvoke\<close> returns, the solution of the
  final state is returned if the \<open>hasattr\<close> test finds it, and else the rejected
  fallback of the last branch. \<open>develop\<close> always returns a solution.
\<close>

definition develop ::
  "engine \<Rightarrow> developer_ports \<Rightarrow> string \<Rightarrow> int \<Rightarrow> DevelopmentRequest
     \<Rightarrow> ImplementationSolution" where
  "develop E P solution_id now request =
     (case dev_run (eng_recursion_limit E) P 0 analyze_request_node
             (develop_initial_state solution_id now request) of
        None \<Rightarrow>
          new_solution solution_id now (req_request_id request)
            (msg_plan_title @ req_title request)
            (Some (msg_development_error @ msg_recursion_limit))
            (Some ''low_code_developer'') REJECTED
      | Some (n, final_state) \<Rightarrow>
          if eng_state_attributes E then dev_solution final_state
          else new_solution solution_id now (req_request_id request)
                 (msg_failed_title @ req_title request) (Some msg_agent_failed)
                 None REJECTED)"


section \<open>Running the workflow (src/graph/low\_code\_workflow.py)\<close>

text \<open>
  What the three agents answer in one run of the workflow. The index of a call is the
  number of workflow nodes that ran before it.
\<close>

record workflow_ports =
  wp_search :: "string + ImplementationSolution list"
  wp_develop :: "nat \<Rightarrow> string + ImplementationSolution option"
  wp_validate :: "nat \<Rightarrow> ImplementationSolution \<Rightarrow> string + ValidationResult"
  wp_store ::
    "nat \<Rightarrow> ImplementationSolution \<Rightarrow> RewardDecision \<Rightarrow> string + bool \<times> ImplementationSolution"

fun run_node ::
  "workflow_ports \<Rightarrow> nat \<Rightarrow> node \<Rightarrow> LowCodeWorkflowState \<Rightarrow> LowCodeWorkflowState" where
  "run_node P n initialize_node state = initialize state"
| "run_node P n search_knowledge_node state = search_knowledge state (wp_search P)"
| "run_node P n develop_solution_node state = develop_solution state (wp_develop P n)"
| "run_node P n validate_solution_node state = validate_solution state (wp_validate P n)"
| "run_node P n review_solution_node state = review_solution state"
| "run_node P n update_knowledge_node state = update_knowledge state (wp_store P n)"
| "run_node P n finalize_node state = finalize state"
| "run_node P n handle_error_node state = handle_error state"
| "run_node P n END state = state"

text \<open>
  The workflow graph on the engine, as for the developer graph: the final state and the
  number of nodes that ran, or \<open>None\<close> when the engine gives up at the limit.
  \<open>workflow_ainvoke\<close> is the \<open>ainvoke\<close> of \<open>execute\<close>: the final state, or the
  engine's exception.
\<close>

fun run ::
  "nat \<Rightarrow> workflow_ports \<Rightarrow> nat \<Rightarrow> node \<Rightarrow> LowCodeWorkflowState
     \<Rightarrow> (nat \<times> LowCodeWorkflowState) option" where
  "run 0 P n node state = (if node = END then Some (n, state) else None)"
| "run (Suc limit) P n node state =
     (if node = END then Some (n, state)
      else (let state = run_node P n node state
            in run limit P (Suc n) (next_node node state) state))"

definition workflow_ainvoke ::
  "nat \<Rightarrow> workflow_ports \<Rightarrow> LowCodeWorkflowState \<Rightarrow> string + LowCodeWorkflowState" where
  "workflow_ainvoke limit P state =
     (case run limit P 0 initialize_node state of
        None \<Rightarrow> Inl msg_recursion_limit
      | Some (n, final_state) \<Rightarrow> Inr final_state)"

definition msg_workflow_failed :: string where
  "msg_workflow_failed = ''workflow execution failed''"

definition msg_exception_title :: string where
  "msg_exception_title = ''exception plan: ''"

definition msg_workflow_exception :: string where
  "msg_workflow_exception = ''workflow execution exception: ''"

text \<open>
  \<open>try: body except Exception as e: handler(e)\<close>, for a body and a handler that return
  a value or raise.
\<close>

definition try_except :: "string + 'a \<Rightarrow> (string \<Rightarrow> string + 'a) \<Rightarrow> string + 'a" where
  "try_except body handler = (case body of Inl e \<Rightarrow> handler e | Inr v \<Rightarrow> Inr v)"

text \<open>
  \<open>execute\<close>. The argument \<open>ainvoke\<close> maps the initial state to the outcome of
  \<open>await self.graph.ainvoke(initial_state)\<close>: the final state, or the exception that the
  engine raises. The result is \<open>Inr\<close> of the solution that \<open>execute\<close> returns, \<open>Inl\<close> of
  an exception that leaves it. The identifier and time of a solution built here are
  inputs.
\<close>

definition execute ::
  "(LowCodeWorkflowState \<Rightarrow> string + LowCodeWorkflowState) \<Rightarrow> string \<Rightarrow> int
     \<Rightarrow> DevelopmentRequest \<Rightarrow> bool \<Rightarrow> string + ImplementationSolution" where
  "execute ainvoke solution_id now request human_in_loop =
     try_except
       (let initial_state = initial_state request human_in_loop in
        case ainvoke initial_state of
          Inl e \<Rightarrow> Inl e
        | Inr final_state \<Rightarrow>
            (case wf_final_solution final_state of
               Some s \<Rightarrow> Inr s
             | None \<Rightarrow>
                 (case wf_current_solution final_state of
                    Some s \<Rightarrow> Inr s
                  | None \<Rightarrow>
                      Inr (new_solution solution_id now (req_request_id request)
                             (msg_failed_title @ req_title request) (Some msg_workflow_failed)
                             None REJECTED))))
       (\<lambda>e. Inr (new_solution solution_id now (req_request_id request)
                   (msg_exception_title @ req_title request)
                   (Some (msg_workflow_exception @ e)) None REJECTED))"

text \<open>
  The workflow with the agents of the source behind it: the developer graph on the
  engine, the knowledge manager over a store, and a validator that answers what
  \<open>sp_validate\<close> says. The knowledge manager's search and store never raise, and
  neither does \<open>develop\<close>.
\<close>

record system_ports =
  sp_engine :: engine
  sp_developer :: "nat \<Rightarrow> developer_ports"
  sp_validate :: "nat \<Rightarrow> ImplementationSolution \<Rightarrow> string + ValidationResult"
  sp_store :: KnowledgeStore
  sp_db :: bool
  sp_keywords :: "string + string list"
  sp_knowledge :: "string + knowledge_data"

definition system_workflow_ports :: "system_ports \<Rightarrow> DevelopmentRequest \<Rightarrow> workflow_ports" where
  "system_workflow_ports S request =
     \<lparr>wp_search = Inr (search_similar_solutions (sp_store S) (sp_db S) (sp_keywords S) request),
      wp_develop = (\<lambda>n.
         Inr (Some (develop (sp_engine S) (sp_developer S n) ''generated'' 0 request))),
      wp_validate = sp_validate S,
      wp_store = (\<lambda>n solution decision.
         (let out = store_solution (sp_store S) (sp_db S) (sp_knowledge S) solution decision
          in Inr (so_result out, so_solution out)))\<rparr>"

section \<open>Example inputs\<close>

definition example_request :: DevelopmentRequest where
  "example_request =
     \<lparr>req_request_id = ''r1'', req_title = ''Invoice Form'',
      req_description = ''create an invoice entry form'',
      req_requirements = [''amount field'']\<rparr>"

definition example_op :: LowCodeOperation where
  "example_op =
     \<lparr>op_target_element = ''#save'', op_execution_time = Some 2,
      op_success = Some True, op_error_message = None\<rparr>"

definition example_solution :: ImplementationSolution where
  "example_solution =
     (new_solution ''s1'' 0 ''r1'' ''plan: Invoice Form'' (Some ''generated plan'')
        (Some ''low_code_developer'') PENDING)\<lparr>sol_operations := [example_op, example_op]\<rparr>"

definition validation_of :: "bool \<Rightarrow> real \<Rightarrow> ValidationResult" where
  "validation_of valid sc =
     \<lparr>vr_is_valid = valid, vr_score = sc, vr_issues = [], vr_suggestions = [],
      vr_validator_agent = Some ''function_validator''\<rparr>"

text \<open>
  A workflow state on entry to the review node: built by \<open>execute\<close>, developed
  \<open>iteration\<close> times, validated with the given verdict and score.
\<close>

definition review_input :: "bool \<Rightarrow> real \<Rightarrow> int \<Rightarrow> bool \<Rightarrow> LowCodeWorkflowState" where
  "review_input valid sc iteration hil =
     (initial_state example_request hil)
       \<lparr>wf_iteration_count := iteration,
        wf_current_solution :=
          Some (update_validation_result example_solution (validation_of valid sc)),
        wf_validation_result := Some (validation_of valid sc)\<rparr>"

text \<open>A knowledge entry that was never used.\<close>

definition fresh_entry :: KnowledgeEntry where
  "fresh_entry =
     \<lparr>ke_title = ''form pattern'', ke_description = ''how to build a form'',
      ke_entry_type = BEST_PRACTICE, ke_related_solution_ids = [], ke_usage_count = 0,
      ke_success_rate = 0, ke_quality_score = 0, ke_is_verified = False\<rparr>"

text \<open>A sequence of 23 calls of \<open>add_usage\<close>, 15 of them successful.\<close>

definition rounding_calls :: "bool list" where
  "rounding_calls =
     [True, True, False, True, True, False, True, True, True, True, False, False,
      True, True, True, False, True, True, False, True, True, False, False]"


definition invoice_candidate :: ImplementationSolution where
  "invoice_candidate =
     (new_solution ''s2'' 0 ''r0'' ''Invoice Management Form'' (Some ''track customer payments'')
        None ACCEPTED)\<lparr>sol_success_rate := 0.5\<rparr>"

text \<open>
  A developer state on entry to \<open>finalize_solution\<close>, holding the given solution with
  all its operations run.
\<close>

definition finalize_input :: "ImplementationSolution \<Rightarrow> LowCodeDeveloperState" where
  "finalize_input solution =
     (develop_initial_state ''s1'' 0 example_request)
       \<lparr>dev_solution := solution,
        dev_current_operation_index := int (length (sol_operations solution)),
        dev_is_authenticated := True\<rparr>"

text \<open>
  A store that holds, on day 1000, a rejected solution created 100 days ago and an
  accepted one created 200 days ago.
\<close>

definition day :: int where
  "day = 86400"

definition old_rejected :: ImplementationSolution where
  "old_rejected =
     new_solution ''old-rejected'' (1000 * day - 100 * day) ''r1'' ''stock list'' None None REJECTED"

definition old_accepted :: ImplementationSolution where
  "old_accepted =
     new_solution ''old-accepted'' (1000 * day - 200 * day) ''r1'' ''price list'' None None ACCEPTED"

definition aged_store :: KnowledgeStore where
  "aged_store = \<lparr>ks_solutions = [old_rejected, old_accepted], ks_entries = []\<rparr>"

section \<open>Notions of the statements\<close>

text \<open>The number of calls of \<open>add_usage\<close> that reported success.\<close>

definition successes :: "bool list \<Rightarrow> nat" where
  "successes calls = length (filter (\<lambda>success. success) calls)"

text \<open>The number of operations of a solution whose success flag is \<open>True\<close>.\<close>

definition successful_operations :: "ImplementationSolution \<Rightarrow> nat" where
  "successful_operations s = length (filter (\<lambda>op. op_success op = Some True) (sol_operations s))"

text \<open>A solution carries a validation result, and the result says valid.\<close>

definition solution_is_valid :: "ImplementationSolution \<Rightarrow> bool" where
  "solution_is_valid s =
     (case sol_validation_result s of None \<Rightarrow> False | Some r \<Rightarrow> vr_is_valid r)"


section \<open>Example collaborators\<close>

text \<open>
  A developer run in which everything works and the vision analysis never approves: the
  analysis and a plan of one operation are returned, the login and the operation
  succeed, and every judgement of the result has no success indicator and confidence
  0.5. Nothing raises.
\<close>

definition stalling_developer :: developer_ports where
  "stalling_developer =
     \<lparr>dp_analysis = Inr ''analysis done'',
      dp_plan = ([example_op\<lparr>op_execution_time := None, op_success := None\<rparr>], None),
      dp_login = (\<lambda>n. Inr ''https://platform.example''),
      dp_operation =
        (\<lambda>n op. Executed (op\<lparr>op_execution_time := Some 1, op_success := Some True\<rparr>) True),
      dp_judgement = (\<lambda>n. Inr (False, 0.5, [''the form is not visible''])),
      dp_navigate = (\<lambda>n. Inr ())\<rparr>"

definition stalling_system :: system_ports where
  "stalling_system =
     \<lparr>sp_engine = \<lparr>eng_recursion_limit = 25, eng_state_attributes = True\<rparr>,
      sp_developer = (\<lambda>n. stalling_developer),
      sp_validate = (\<lambda>n s. Inr (validation_of True 0.95)),
      sp_store = aged_store, sp_db = True, sp_keywords = Inr [''invoice''],
      sp_knowledge = Inl ''no answer''\<rparr>"

text \<open>The same system with a database that raises and a completion call that raises.\<close>

definition search_failing_system :: system_ports where
  "search_failing_system =
     stalling_system\<lparr>sp_db := False, sp_keywords := Inl ''completion timed out''\<rparr>"

text \<open>
  Agents that return at once: the developer a solution of two operations, the validator
  an invalid result of score 0.5.
\<close>

definition low_quality_agents :: workflow_ports where
  "low_quality_agents =
     \<lparr>wp_search = Inr [],
      wp_develop = (\<lambda>n. Inr (Some example_solution)),
      wp_validate = (\<lambda>n s. Inr (validation_of False 0.5)),
      wp_store = (\<lambda>n s d. Inr (True, s))\<rparr>"

section \<open>Invariants of the two cycles\<close>


text \<open>
  The workflow between \<open>develop_solution\<close>, \<open>validate_solution\<close> and \<open>review_solution\<close>,
  with no error recorded and the iteration budget used up once development has run.
\<close>

definition reject_cycle :: "node \<Rightarrow> LowCodeWorkflowState \<Rightarrow> bool" where
  "reject_cycle node state =
     (wf_errors state = []
      \<and> (node = develop_solution_node
            \<and> wf_iteration_count state + 1 \<ge> wf_max_iterations state
          \<or> node = validate_solution_node
            \<and> wf_current_solution state \<noteq> None
            \<and> wf_iteration_count state \<ge> wf_max_iterations state
          \<or> node = review_solution_node
            \<and> wf_current_solution state \<noteq> None
            \<and> (\<exists>r. wf_validation_result state = Some r \<and> \<not> vr_is_valid r)
            \<and> wf_iteration_count state \<ge> wf_max_iterations state))"

section \<open>Properties\<close>

subsection \<open>The review policy of the workflow\<close>

text \<open>
  Claim C1. For a state that holds a solution and a validation result, the review node
  decides from the validation result, the iteration counter, the human-in-loop flag and
  the thresholds alone: a valid result with a score at or above the auto-accept threshold
  is accepted whatever the flag says; a valid result with a score from 0.70 up to the
  threshold is pending under human review and accepted without it; a score below 0.70
  or an invalid result is pending while iterations remain and rejected otherwise. The
  node changes nothing but the stage and the decision. The third case is stated as in
  the claim for an auto-accept threshold of at least 0.70 (the default is 0.90), where
  the three cases do not overlap, and for any threshold under the condition that the
  first case does not apply.
\<close>

theorem review_decision_table:
  assumes "wf_current_solution state = Some s"
    and "wf_validation_result state = Some r"
  shows "(vr_is_valid r \<and> vr_score r \<ge> wf_auto_accept_threshold state
            \<longrightarrow> wf_reward_decision (review_solution state) = ACCEPTED)
       \<and> (vr_is_valid r \<and> 0.7 \<le> vr_score r \<and> vr_score r < wf_auto_accept_threshold state
            \<longrightarrow> wf_reward_decision (review_solution state)
                = (if wf_human_in_loop state then PENDING else ACCEPTED))
       \<and> (0.7 \<le> wf_auto_accept_threshold state \<and> (vr_score r < 0.7 \<or> \<not> vr_is_valid r)
            \<longrightarrow> wf_reward_decision (review_solution state)
                = (if wf_iteration_count state < wf_max_iterations state
                   then PENDING else REJECTED))
       \<and> ((vr_score r < 0.7 \<or> \<not> vr_is_valid r)
            \<and> \<not> (vr_is_valid r \<and> vr_score r \<ge> wf_auto_accept_threshold state)
            \<longrightarrow> wf_reward_decision (review_solution state)
                = (if wf_iteration_count state < wf_max_iterations state
                   then PENDING else REJECTED))
       \<and> review_solution state
           = state\<lparr>wf_current_stage := REVIEW,
                   wf_reward_decision := wf_reward_decision (review_solution state)\<rparr>"
  using assms by (auto simp: review_solution_def Let_def)

theorem review_decision_table_witness:
  "wf_reward_decision (review_solution (review_input True 0.95 1 True)) = ACCEPTED
   \<and> wf_reward_decision (review_solution (review_input True 0.8 1 True)) = PENDING
   \<and> wf_reward_decision (review_solution (review_input True 0.8 1 False)) = ACCEPTED
   \<and> wf_reward_decision (review_solution (review_input False 0.95 1 False)) = PENDING
   \<and> wf_reward_decision (review_solution (review_input True 0.5 3 False)) = REJECTED"
  using review_decision_table [of "review_input True 0.95 1 True" _ "validation_of True 0.95"]
    review_decision_table [of "review_input True 0.8 1 True" _ "validation_of True 0.8"]
    review_decision_table [of "review_input True 0.8 1 False" _ "validation_of True 0.8"]
    review_decision_table [of "review_input False 0.95 1 False" _ "validation_of False 0.95"]
    review_decision_table [of "review_input True 0.5 3 False" _ "validation_of True 0.5"]
  by (simp add: review_input_def initial_state_def validation_of_def)

text \<open>
  Below 0.70 the first branch of the source still comes first: with an auto-accept
  threshold of 0.50 a valid result of score 0.60 is accepted.
\<close>

lemma review_threshold_below_floor:
  "wf_reward_decision
     (review_solution ((review_input True 0.6 1 True)\<lparr>wf_auto_accept_threshold := 0.5\<rparr>))
   = ACCEPTED"
  by (simp add: review_solution_def review_input_def initial_state_def validation_of_def Let_def)

text \<open>
  Claim C3. When the review node answers pending because the result is invalid or scores
  below 0.70 while iterations remain, the claim has the workflow enter the development
  node again. The graph does not: in the first iteration of three, an invalid result of
  score 0.50 gives the decision pending, the condition \<open>_after_review\<close> returns the
  label pending, and the edge table sends that label to the finalize node.
\<close>

theorem pending_for_retry_enters_finalize:
  "wf_reward_decision (review_solution (review_input False 0.5 1 True)) = PENDING
   \<and> wf_iteration_count (review_solution (review_input False 0.5 1 True))
       < wf_max_iterations (review_solution (review_input False 0.5 1 True))
   \<and> after_review (review_solution (review_input False 0.5 1 True)) = ''pending''
   \<and> next_node review_solution_node (review_solution (review_input False 0.5 1 True))
       = finalize_node
   \<and> next_node review_solution_node (review_solution (review_input False 0.5 1 True))
       \<noteq> develop_solution_node"
  by (simp add: review_solution_def review_input_def initial_state_def validation_of_def
      Let_def after_review_def follow_def review_edges_def)

text \<open>
  Every pending decision takes that edge, whatever made it pending, and the knowledge
  update is not on the way.
\<close>

lemma pending_always_enters_finalize:
  "wf_reward_decision state = PENDING \<Longrightarrow> next_node review_solution_node state = finalize_node"
  by (simp add: after_review_def follow_def review_edges_def)

subsection \<open>The developer's finalize step\<close>

text \<open>
  Claim C4. After \<open>finalize_solution\<close> the success rate of the solution is the number
  of operations whose success flag is true over the number of operations, and 0 for a
  solution without operations; the decision is accepted for a valid validation result
  and a rate of at least 0.8, pending for a valid result and a lower rate, rejected
  otherwise. The step leaves the operations and the validation result as they are.
\<close>

theorem finalize_solution_rate_and_decision:
  fixes state :: LowCodeDeveloperState
  defines "before \<equiv> dev_solution state"
    and "after \<equiv> dev_solution (finalize_solution state)"
  shows "sol_success_rate after
           = (if sol_operations before = [] then 0
              else real (successful_operations before) / real (length (sol_operations before)))
       \<and> (solution_is_valid before \<and> sol_success_rate after \<ge> 0.8
            \<longrightarrow> sol_reward_decision after = ACCEPTED)
       \<and> (solution_is_valid before \<and> sol_success_rate after < 0.8
            \<longrightarrow> sol_reward_decision after = PENDING)
       \<and> (\<not> solution_is_valid before \<longrightarrow> sol_reward_decision after = REJECTED)
       \<and> sol_operations after = sol_operations before
       \<and> sol_validation_result after = sol_validation_result before"
  unfolding before_def after_def
  by (simp add: finalize_solution_def set_solution_def Let_def solution_is_valid_def
      successful_operations_def)

text \<open>
  The scenario of the claim: two operations, both successful, and a valid result of
  score 0.85 end with rate 1 and the decision accepted.
\<close>

theorem finalize_solution_rate_and_decision_witness:
  "sol_success_rate (dev_solution (finalize_solution (finalize_input
       (update_validation_result example_solution (validation_of True 0.85))))) = 1
   \<and> sol_reward_decision (dev_solution (finalize_solution (finalize_input
       (update_validation_result example_solution (validation_of True 0.85))))) = ACCEPTED"
  using finalize_solution_rate_and_decision
    [of "finalize_input (update_validation_result example_solution (validation_of True 0.85))"]
  by (simp add: finalize_input_def update_validation_result_def example_solution_def
      example_op_def validation_of_def solution_is_valid_def successful_operations_def
      new_solution_def)

subsection \<open>Similarity and ranking\<close>

















subsection \<open>Storing a solution and the reward ledger\<close>

text \<open>
  Claim C6. \<open>store_solution\<close> sets the success rate to the smaller of 1 and the prior
  rate plus 0.1 for an accepted solution, to the larger of 0 and the prior rate minus
  0.1 for a rejected one, and leaves it for a pending one; it hands one transaction to
  the store, for this solution, of 100 points when accepted, of minus 50 when rejected,
  of 0 when pending. For a prior rate between 0 and 1 the new rate is between 0 and 1,
  accepting does not lower it and rejecting does not raise it.
\<close>

theorem store_solution_nudges_rate_and_rewards:
  fixes out :: store_outcome
  assumes "out = store_solution store db completion solution decision"
  shows "sol_success_rate (so_solution out)
           = (case decision of
                ACCEPTED \<Rightarrow> min 1 (sol_success_rate solution + 0.1)
              | REJECTED \<Rightarrow> max 0 (sol_success_rate solution - 0.1)
              | PENDING \<Rightarrow> sol_success_rate solution)
       \<and> map tx_reward_points (so_transactions out)
           = [case decision of ACCEPTED \<Rightarrow> 100 | REJECTED \<Rightarrow> - 50 | PENDING \<Rightarrow> 0]
       \<and> map tx_solution_id (so_transactions out) = [sol_solution_id solution]
       \<and> sol_reward_decision (so_solution out) = decision
       \<and> (0 \<le> sol_success_rate solution \<and> sol_success_rate solution \<le> 1 \<longrightarrow>
            0 \<le> sol_success_rate (so_solution out)
            \<and> sol_success_rate (so_solution out) \<le> 1
            \<and> (decision = ACCEPTED \<longrightarrow>
                 sol_success_rate solution \<le> sol_success_rate (so_solution out))
            \<and> (decision = REJECTED \<longrightarrow>
                 sol_success_rate (so_solution out) \<le> sol_success_rate solution))"
  unfolding assms
  by (cases decision)
     (auto simp: store_solution_def handle_accepted_solution_def handle_rejected_solution_def
        handle_pending_solution_def record_reward_transaction_def Let_def split: option.splits)

theorem store_solution_nudges_rate_and_rewards_witness:
  "sol_success_rate (so_solution
      (store_solution aged_store True (Inl ''no answer'') invoice_candidate ACCEPTED)) = 0.6
   \<and> sol_success_rate (so_solution
      (store_solution aged_store True (Inl ''no answer'') invoice_candidate REJECTED)) = 0.4
   \<and> map tx_reward_points (so_transactions
      (store_solution aged_store True (Inl ''no answer'') invoice_candidate ACCEPTED)) = [100]
   \<and> map tx_reward_points (so_transactions
      (store_solution aged_store False (Inl ''no answer'') invoice_candidate REJECTED)) = [- 50]
   \<and> map tx_reward_points (so_transactions
      (store_solution aged_store True (Inl ''no answer'') invoice_candidate PENDING)) = [0]"
  using store_solution_nudges_rate_and_rewards
      [OF refl, of aged_store True "Inl ''no answer''" invoice_candidate ACCEPTED]
    store_solution_nudges_rate_and_rewards
      [OF refl, of aged_store True "Inl ''no answer''" invoice_candidate REJECTED]
    store_solution_nudges_rate_and_rewards
      [OF refl, of aged_store False "Inl ''no answer''" invoice_candidate REJECTED]
    store_solution_nudges_rate_and_rewards
      [OF refl, of aged_store True "Inl ''no answer''" invoice_candidate PENDING]
  by (simp add: invoice_candidate_def new_solution_def)

subsection \<open>The entry point of the workflow\<close>

text \<open>
  Claim C7. Whatever the graph engine answers, \<open>execute\<close> returns a solution and no
  exception leaves it. When the engine raises, the solution returned is rejected, has
  no operations, belongs to the request, and its description is the failure reason:
  the text of the exception after a fixed prefix. When the final state holds no
  solution at all, the solution returned is rejected with a fixed description.
\<close>

theorem execute_never_raises:
  "\<exists>solution.
     execute ainvoke solution_id now request human_in_loop = Inr solution
     \<and> (\<forall>e. ainvoke (initial_state request human_in_loop) = Inl e \<longrightarrow>
           sol_reward_decision solution = REJECTED
           \<and> sol_description solution = Some (msg_workflow_exception @ e)
           \<and> sol_request_id solution = req_request_id request
           \<and> sol_operations solution = [])
     \<and> (\<forall>final. ainvoke (initial_state request human_in_loop) = Inr final
              \<and> wf_final_solution final = None \<and> wf_current_solution final = None \<longrightarrow>
           sol_reward_decision solution = REJECTED
           \<and> sol_description solution = Some msg_workflow_failed)"
  by (auto simp: execute_def try_except_def new_solution_def Let_def
      split: sum.splits option.splits)

theorem execute_never_raises_witness:
  "\<exists>solution.
     execute (\<lambda>st. Inl ''recursion limit reached'') ''s9'' 0 example_request True = Inr solution
     \<and> sol_reward_decision solution = REJECTED
     \<and> sol_description solution = Some (msg_workflow_exception @ ''recursion limit reached'')"
  using execute_never_raises
    [of "\<lambda>st. Inl ''recursion limit reached''" "''s9''" 0 example_request True]
  by auto

subsection \<open>Cleaning up old solutions\<close>

text \<open>
  The class of the store defines neither \<open>get_solutions_before_date\<close> nor
  \<open>delete_solution\<close>, so the first statement of \<open>cleanup_old_solutions\<close> that touches
  the store raises, and the handler answers 0: no solution is ever deleted.
\<close>

lemma cleanup_never_deletes: "cleanup_old_solutions store now retention_days = (0, store)"
  by (simp add: cleanup_old_solutions_def store_attribute_def KnowledgeStore_methods_def Let_def)

text \<open>
  Claim C9. The claim has \<open>cleanup(90)\<close> delete a rejected solution created 100 days
  ago. On a store that holds such a solution the source answers 0 and the solution is
  still stored.
\<close>

theorem cleanup_keeps_old_rejected_solution:
  "cleanup_old_solutions aged_store (1000 * day) 90 = (0, aged_store)
   \<and> sol_reward_decision old_rejected = REJECTED
   \<and> sol_created_at old_rejected < 1000 * day - 86400 * 90
   \<and> old_rejected \<in> set (ks_solutions (snd (cleanup_old_solutions aged_store (1000 * day) 90)))"
  by (simp add: cleanup_old_solutions_def store_attribute_def KnowledgeStore_methods_def Let_def
      aged_store_def old_rejected_def new_solution_def day_def)

text \<open>
  With the two store methods as the spec describes the port, the loop of the source
  does what the claim says on this store: it deletes the rejected solution, keeps the
  accepted one and counts 1.
\<close>

lemma intended_cleanup_example:
  "cleanup_loop aged_store (ks_get_solutions_before_date aged_store (1000 * day - 86400 * 90)) 0
     = (1, aged_store\<lparr>ks_solutions := [old_accepted]\<rparr>)"
  by (simp add: aged_store_def ks_get_solutions_before_date_def ks_delete_solution_def
      old_rejected_def old_accepted_def new_solution_def day_def)

text \<open>
  In general, over a store whose solutions have distinct identifiers, that loop removes
  exactly the rejected solutions created before the cutoff and counts them.
\<close>

lemma cleanup_loop_deletes_by_id:
  "ks_solutions (snd (cleanup_loop store xs c))
     = filter (\<lambda>s. sol_solution_id s \<notin> sol_solution_id ` {x \<in> set xs. sol_reward_decision x = REJECTED})
         (ks_solutions store)"
proof (induction xs arbitrary: store c)
  case Nil
  show ?case by simp
next
  case (Cons x xs)
  show ?case
  proof (cases "sol_reward_decision x = REJECTED")
    case True
    have "{y \<in> set (x # xs). sol_reward_decision y = REJECTED}
            = insert x {y \<in> set xs. sol_reward_decision y = REJECTED}"
      using True by auto
    then show ?thesis
      using True Cons.IH [of "ks_delete_solution store (sol_solution_id x)" "c + 1"]
      by (auto simp: ks_delete_solution_def intro: filter_cong)
  next
    case False
    have "{y \<in> set (x # xs). sol_reward_decision y = REJECTED}
            = {y \<in> set xs. sol_reward_decision y = REJECTED}"
      using False by auto
    then show ?thesis
      using False Cons.IH [of store c] by simp
  qed
qed

lemma cleanup_loop_counts:
  "fst (cleanup_loop store xs c)
     = c + int (length (filter (\<lambda>s. sol_reward_decision s = REJECTED) xs))"
  by (induction xs arbitrary: store c) auto

lemma intended_cleanup:
  assumes "distinct (map sol_solution_id (ks_solutions store))"
  shows "ks_solutions (snd (cleanup_loop store (ks_get_solutions_before_date store cutoff) 0))
           = filter (\<lambda>s. \<not> (sol_reward_decision s = REJECTED \<and> sol_created_at s < cutoff))
               (ks_solutions store)"
proof -
  have inj: "inj_on sol_solution_id (set (ks_solutions store))"
    using assms by (simp add: distinct_map)
  have "sol_solution_id s \<in> sol_solution_id `
            {x \<in> set (ks_get_solutions_before_date store cutoff). sol_reward_decision x = REJECTED}
          \<longleftrightarrow> sol_reward_decision s = REJECTED \<and> sol_created_at s < cutoff"
    if "s \<in> set (ks_solutions store)" for s
    using that inj by (auto simp: ks_get_solutions_before_date_def dest: inj_onD)
  then have "filter (\<lambda>s. sol_solution_id s \<notin> sol_solution_id `
                 {x \<in> set (ks_get_solutions_before_date store cutoff). sol_reward_decision x = REJECTED})
               (ks_solutions store)
           = filter (\<lambda>s. \<not> (sol_reward_decision s = REJECTED \<and> sol_created_at s < cutoff))
               (ks_solutions store)"
    by (intro filter_cong refl) simp
  then show ?thesis
    by (simp only: cleanup_loop_deletes_by_id)
qed

subsection \<open>Usage statistics of a knowledge entry\<close>

text \<open>
  The exponent brackets a positive number, and rounding to the nearest integer moves a
  number by at most one half and not across an integer.
\<close>

lemma bit_length_bounds:
  "0 < n \<Longrightarrow> 2 ^ (bit_length n - 1) \<le> n \<and> n < 2 ^ bit_length n"
proof (induction n rule: bit_length.induct)
  case (1 n)
  show ?case
  proof (cases "n div 2 = 0")
    case True
    then have "n = 1"
      using "1.prems" by linarith
    then show ?thesis
      by (simp add: bit_length.simps)
  next
    case False
    then have ih: "2 ^ (bit_length (n div 2) - 1) \<le> n div 2" "n div 2 < 2 ^ bit_length (n div 2)"
      using "1.IH" by simp_all
    have pos: "0 < bit_length (n div 2)"
      using False by (simp add: bit_length.simps [of "n div 2"])
    have b: "bit_length n = Suc (bit_length (n div 2))"
      using "1.prems" by (simp add: bit_length.simps [of n])
    have "2 ^ (bit_length n - 1) = 2 * 2 ^ (bit_length (n div 2) - 1)"
      using pos b by (cases "bit_length (n div 2)") simp_all
    also have "\<dots> \<le> 2 * (n div 2)"
      using ih(1) by simp
    also have "\<dots> \<le> n"
      by simp
    finally have lo: "2 ^ (bit_length n - 1) \<le> n" .
    have "n < 2 * (n div 2) + 2"
      by linarith
    also have "\<dots> \<le> 2 * 2 ^ bit_length (n div 2)"
      using ih(2) by simp
    finally have "n < 2 ^ bit_length n"
      using b by simp
    then show ?thesis
      using lo by simp
  qed
qed

lemma bit_length_lower: "0 < n \<Longrightarrow> 2 ^ (bit_length n - 1) \<le> real n"
proof -
  assume "0 < n"
  then have "2 ^ (bit_length n - 1) \<le> n"
    using bit_length_bounds by blast
  then have "real (2 ^ (bit_length n - 1)) \<le> real n"
    by (rule of_nat_mono)
  then show ?thesis
    by simp
qed

lemma bit_length_upper: "0 < n \<Longrightarrow> real n + 1 \<le> 2 ^ bit_length n"
proof -
  assume "0 < n"
  then have "n < 2 ^ bit_length n"
    using bit_length_bounds by blast
  then have "Suc n \<le> 2 ^ bit_length n"
    by (rule Suc_leI)
  then have "real (Suc n) \<le> real (2 ^ bit_length n)"
    by (rule of_nat_mono)
  then show ?thesis
    by (simp add: add.commute)
qed

lemma bit_length_pos: "0 < n \<Longrightarrow> 0 < bit_length n"
  by (simp add: bit_length.simps [of n])

lemma pow2_powr: "pow2 e = 2 powr real_of_int e"
  by (simp add: pow2_def powr_real_of_int divide_inverse)

lemma pow2_pos: "0 < pow2 e"
  by (simp add: pow2_powr)

lemma pow2_add: "pow2 (a + b) = pow2 a * pow2 b"
  by (simp add: pow2_powr powr_add)

lemma pow2_nat: "pow2 (int k) = 2 ^ k"
  by (simp add: pow2_def)

lemma pow2_neg: "pow2 (- a) = 1 / pow2 a"
  by (simp add: pow2_powr powr_minus divide_inverse)

lemma pow2_mono: "a \<le> b \<Longrightarrow> pow2 a \<le> pow2 b"
  by (simp add: pow2_powr)

lemma pow2_less_iff: "pow2 a < pow2 b \<longleftrightarrow> a < b"
  by (simp add: pow2_powr)

lemma exponent_bounds:
  assumes "0 < x"
  shows "pow2 (exponent x) \<le> x \<and> x < pow2 (exponent x + 1)"
proof (cases "1 \<le> x")
  case True
  let ?n = "nat \<lfloor>x\<rfloor>"
  have n: "0 < ?n"
    using True by simp
  have e: "exponent x = int (bit_length ?n) - 1"
    using True by (simp add: exponent_def)
  have b: "0 < bit_length ?n"
    using n by (rule bit_length_pos)
  have e': "exponent x = int (bit_length ?n - 1)"
    using e b by simp
  have "(2::real) ^ (bit_length ?n - 1) \<le> real ?n"
    using n by (rule bit_length_lower)
  also have "real ?n \<le> x"
    using True by simp
  finally have lo: "pow2 (exponent x) \<le> x"
    unfolding e' pow2_nat .
  have "x < real ?n + 1"
    using True by linarith
  also have "real ?n + 1 \<le> 2 ^ bit_length ?n"
    using n by (rule bit_length_upper)
  finally have "x < pow2 (int (bit_length ?n))"
    unfolding pow2_nat .
  then show ?thesis
    using lo e by simp
next
  case False
  let ?m = "nat (\<lceil>1 / x\<rceil> - 1)"
  have inv: "1 < 1 / x"
    using False assms by simp
  then have c: "2 \<le> \<lceil>1 / x\<rceil>"
    by linarith
  then have m: "0 < ?m"
    by simp
  have e: "exponent x = - int (bit_length ?m)"
    using False by (simp add: exponent_def)
  have b: "0 < bit_length ?m"
    using m by (rule bit_length_pos)
  have "0 \<le> \<lceil>1 / x\<rceil> - 1"
    using c by linarith
  then have "real ?m = of_int (\<lceil>1 / x\<rceil> - 1)"
    by (rule of_nat_nat)
  then have rm: "real ?m = of_int \<lceil>1 / x\<rceil> - 1"
    by (simp only: of_int_diff of_int_1)
  have up: "1 / x \<le> real ?m + 1"
    unfolding rm by simp
  have dn: "real ?m < 1 / x"
    unfolding rm by linarith
  have "real ?m + 1 \<le> 2 ^ bit_length ?m"
    using m by (rule bit_length_upper)
  with up have "1 / x \<le> 2 ^ bit_length ?m"
    by (rule order_trans)
  then have "1 \<le> 2 ^ bit_length ?m * x"
    using assms by (simp add: field_simps)
  then have "1 / 2 ^ bit_length ?m \<le> x"
    by (simp add: field_simps)
  then have lo: "pow2 (exponent x) \<le> x"
    unfolding e pow2_neg pow2_nat .
  have "(2::real) ^ (bit_length ?m - 1) \<le> real ?m"
    using m by (rule bit_length_lower)
  then have "2 ^ (bit_length ?m - 1) < 1 / x"
    using dn by (rule le_less_trans)
  then have "2 ^ (bit_length ?m - 1) * x < 1"
    using assms by (simp add: field_simps)
  then have "x < 1 / 2 ^ (bit_length ?m - 1)"
    by (simp add: field_simps)
  moreover have "exponent x + 1 = - int (bit_length ?m - 1)"
    using e b by simp
  ultimately have "x < pow2 (exponent x + 1)"
    by (simp add: pow2_neg pow2_nat)
  then show ?thesis
    using lo by simp
qed

lemma round_half_even_error: "\<bar>of_int (round_half_even y) - y\<bar> \<le> 1 / 2"
  unfolding round_half_even_def Let_def
  by (auto simp: abs_if) linarith+

lemma round_half_even_int: "round_half_even (of_int k) = k"
  by (simp add: round_half_even_def)

lemma round_half_even_le: "y \<le> of_int k \<Longrightarrow> round_half_even y \<le> k"
proof -
  assume a: "y \<le> of_int k"
  then have f: "\<lfloor>y\<rfloor> \<le> k"
    by (simp add: floor_le_iff) 
  show ?thesis
  proof (cases "\<lfloor>y\<rfloor> = k")
    case True
    then have "y = of_int k"
      using a by linarith
    then show ?thesis
      by (simp add: round_half_even_int)
  next
    case False
    then have "\<lfloor>y\<rfloor> + 1 \<le> k"
      using f by simp
    then show ?thesis
      by (simp add: round_half_even_def Let_def)
  qed
qed

lemma round_half_even_nonneg: "0 \<le> y \<Longrightarrow> 0 \<le> round_half_even y"
  by (simp add: round_half_even_def Let_def)

lemma round64_pos:
  assumes "0 < x"
  shows "round64 x
           = of_int (round_half_even (x / pow2 (max (exponent x) (- 1022) - 52)))
             * pow2 (max (exponent x) (- 1022) - 52)"
  using assms by (simp add: round64_def Let_def)

lemma round64_zero: "round64 0 = 0"
  by (simp add: round64_def)

lemma round64_nonneg:
  assumes "0 \<le> x"
  shows "0 \<le> round64 x"
proof (cases "x = 0")
  case True
  then show ?thesis
    by (simp add: round64_zero)
next
  case False
  then have x: "0 < x"
    using assms by simp
  let ?q = "pow2 (max (exponent x) (- 1022) - 52)"
  have "0 \<le> x / ?q"
    using x pow2_pos [of "max (exponent x) (- 1022) - 52"] by simp
  then have "0 \<le> round_half_even (x / ?q)"
    by (rule round_half_even_nonneg)
  then show ?thesis
    unfolding round64_pos [OF x] using pow2_pos [of "max (exponent x) (- 1022) - 52"] by simp
qed

lemma round64_error:
  assumes "0 \<le> x" and "x \<le> B" and "1 \<le> B"
  shows "\<bar>round64 x - x\<bar> \<le> B / 2 ^ 53"
proof (cases "x = 0")
  case True
  then show ?thesis
    using assms(3) by (simp add: round64_zero)
next
  case False
  then have x: "0 < x"
    using assms by simp
  let ?e = "max (exponent x) (- 1022)"
  let ?q = "pow2 (?e - 52)"
  have q: "0 < ?q"
    by (rule pow2_pos)
  have pe: "pow2 ?e \<le> B"
  proof (cases "exponent x \<le> - 1022")
    case True
    then have "pow2 ?e = pow2 (- 1022)"
      by (simp add: max_def)
    also have "\<dots> \<le> pow2 0"
      by (rule pow2_mono) simp
    also have "\<dots> = 1"
      by (simp add: pow2_def)
    finally show ?thesis
      using assms(3) by simp
  next
    case False
    then have "pow2 ?e = pow2 (exponent x)"
      by (simp add: max_def)
    also have "\<dots> \<le> x"
      using exponent_bounds [OF x] by simp
    finally show ?thesis
      using assms(2) by simp
  qed
  have qe: "?q = pow2 ?e / 2 ^ 52"
  proof -
    have "?q = pow2 (?e + (- 52))"
      by simp
    also have "\<dots> = pow2 ?e * pow2 (- 52)"
      by (rule pow2_add)
    also have "pow2 (- 52) = 1 / 2 ^ 52"
      by (simp add: pow2_def)
    finally show ?thesis
      by simp
  qed
  have "round64 x - x = (of_int (round_half_even (x / ?q)) - x / ?q) * ?q"
    unfolding round64_pos [OF x] using q by (simp add: algebra_simps)
  then have "\<bar>round64 x - x\<bar> = \<bar>of_int (round_half_even (x / ?q)) - x / ?q\<bar> * ?q"
    using q by (simp add: abs_mult)
  also have "\<dots> \<le> (1 / 2) * ?q"
    using round_half_even_error [of "x / ?q"] q by (intro mult_right_mono) simp_all
  also have "\<dots> = pow2 ?e / 2 ^ 53"
    unfolding qe by simp
  also have "\<dots> \<le> B / 2 ^ 53"
    using pe by (simp add: divide_right_mono)
  finally show ?thesis .
qed

lemma quantum_reciprocal:
  assumes "0 < x" and "x < 2 ^ 53"
  shows "\<exists>k. pow2 (max (exponent x) (- 1022) - 52) = 1 / 2 ^ k"
proof -
  have "pow2 (exponent x) < pow2 53"
    using exponent_bounds [OF assms(1)] assms(2) by (simp add: pow2_def)
  then have "exponent x < 53"
    by (simp add: pow2_less_iff)
  then have e: "max (exponent x) (- 1022) - 52 \<le> 0"
    by simp
  let ?d = "max (exponent x) (- 1022) - 52"
  have "pow2 ?d = pow2 (- int (nat (- ?d)))"
    using e by simp
  also have "\<dots> = 1 / 2 ^ nat (- ?d)"
    unfolding pow2_neg pow2_nat ..
  finally show ?thesis
    by blast
qed

lemma round64_le_int:
  assumes "0 \<le> x" and "x \<le> of_int m" and "m < 2 ^ 53"
  shows "round64 x \<le> of_int m"
proof (cases "x = 0")
  case True
  then show ?thesis
    using assms by (simp add: round64_zero)
next
  case False
  then have x: "0 < x"
    using assms by simp
  have "x < 2 ^ 53"
  proof -
    have "real_of_int m < real_of_int (2 ^ 53)"
      using assms(3) by (simp only: of_int_less_iff)
    then show ?thesis
      using assms(2) by simp
  qed
  then obtain k where q: "pow2 (max (exponent x) (- 1022) - 52) = 1 / 2 ^ k"
    using quantum_reciprocal [OF x] by blast
  have "x * 2 ^ k \<le> of_int m * 2 ^ k"
    using assms(2) by simp
  also have "\<dots> = of_int (m * 2 ^ k)"
    by simp
  finally have "round_half_even (x * 2 ^ k) \<le> m * 2 ^ k"
    by (rule round_half_even_le)
  then have "real_of_int (round_half_even (x * 2 ^ k)) \<le> real_of_int (m * 2 ^ k)"
    by (simp only: of_int_le_iff)
  then have "real_of_int (round_half_even (x * 2 ^ k)) / 2 ^ k \<le> real_of_int (m * 2 ^ k) / 2 ^ k"
    by (rule divide_right_mono) simp
  then show ?thesis
    unfolding round64_pos [OF x] q by simp
qed

lemma round64_int:
  assumes "0 \<le> m" and "m < 2 ^ 53"
  shows "round64 (of_int m) = of_int m"
proof (cases "m = 0")
  case True
  then show ?thesis
    by (simp add: round64_zero)
next
  case False
  then have x: "0 < real_of_int m"
    using assms by simp
  have "real_of_int m < real_of_int (2 ^ 53)"
    using assms(2) by (simp only: of_int_less_iff)
  then have "real_of_int m < 2 ^ 53"
    by simp
  then obtain k where q: "pow2 (max (exponent (of_int m)) (- 1022) - 52) = 1 / 2 ^ k"
    using quantum_reciprocal [OF x] by blast
  have "real_of_int m * 2 ^ k = of_int (m * 2 ^ k)"
    by simp
  then have "round_half_even (real_of_int m * 2 ^ k) = m * 2 ^ k"
    by (simp only: round_half_even_int)
  then show ?thesis
    unfolding round64_pos [OF x] q by simp
qed

lemma float_of_int_exact: "0 \<le> m \<Longrightarrow> m < 2 ^ 53 \<Longrightarrow> float_of_int m = of_int m"
  by (simp add: float_of_int_def round64_int)

lemma add_usages_append:
  "add_usages entry (xs @ ys)
     = (case add_usages entry xs of Inl e \<Rightarrow> Inl e | Inr entry' \<Rightarrow> add_usages entry' ys)"
  by (induction xs arbitrary: entry) (simp_all split: sum.splits)

lemma add_usages_snoc:
  "add_usages entry (calls @ [c])
     = (case add_usages entry calls of Inl e \<Rightarrow> Inl e | Inr entry' \<Rightarrow> add_usage entry' c)"
  by (simp add: add_usages_append split: sum.splits)

lemma successes_snoc: "successes (calls @ [c]) = successes calls + (if c then 1 else 0)"
  by (simp add: successes_def)

lemma add_usage_first:
  assumes "ke_usage_count entry = 0"
  shows "add_usage entry c
           = Inr (entry\<lparr>ke_usage_count := 1, ke_success_rate := (if c then 1 else 0)\<rparr>)"
  using assms by (simp add: add_usage_def Let_def)

text \<open>
  One later call. The stored rate times the old count is within \<open>k\<^sup>2 / 2\<^sup>5\<^sup>2\<close> of a
  number \<open>s\<close>; the three roundings of the call add at most \<open>3 (k + 1) / 2\<^sup>5\<^sup>3\<close>.
\<close>

lemma add_usage_later:
  assumes count: "ke_usage_count entry = k" and k: "1 \<le> k" "k + 1 < 2 ^ 53"
    and range: "0 \<le> ke_success_rate entry" "ke_success_rate entry \<le> 1"
    and near: "\<bar>ke_success_rate entry * of_int k - s\<bar> \<le> (of_int k)\<^sup>2 / 2 ^ 52"
  shows "\<exists>entry'. add_usage entry c = Inr entry'
           \<and> ke_usage_count entry' = k + 1
           \<and> 0 \<le> ke_success_rate entry' \<and> ke_success_rate entry' \<le> 1
           \<and> \<bar>ke_success_rate entry' * of_int (k + 1) - (s + (if c then 1 else 0))\<bar>
               \<le> (of_int (k + 1))\<^sup>2 / 2 ^ 52"
proof -
  let ?r = "ke_success_rate entry"
  let ?K = "real_of_int k"
  let ?N = "real_of_int (k + 1)"
  define p where "p = round64 (?r * ?K)"
  define p' where "p' = (if c then round64 (p + 1) else p)"
  define r' where "r' = round64 (p' / ?N)"
  have K1: "1 \<le> ?K"
    using k(1) by simp
  have N: "?N = ?K + 1"
    by simp
  have fk: "float_of_int k = ?K"
    using k by (intro float_of_int_exact) simp_all
  have fn: "float_of_int (k + 1) = ?N"
    using k by (intro float_of_int_exact) simp_all
  have x0: "0 \<le> ?r * ?K"
    using range(1) K1 by simp
  have x1: "?r * ?K \<le> ?K"
    using range(2) K1 by (simp add: mult_left_le_one_le)
  have p0: "0 \<le> p"
    unfolding p_def using x0 by (rule round64_nonneg)
  have pk: "p \<le> ?K"
    unfolding p_def using x0 x1 k by (intro round64_le_int) simp_all
  have pe: "\<bar>p - ?r * ?K\<bar> \<le> ?K / 2 ^ 53"
    unfolding p_def using x0 x1 K1 by (rule round64_error)
  have p'0: "0 \<le> p'"
    unfolding p'_def using p0 by (simp add: round64_nonneg)
  have p'n: "p' \<le> ?N"
  proof (cases c)
    case True
    have "round64 (p + 1) \<le> ?N"
      using p0 pk k by (intro round64_le_int) simp_all
    then show ?thesis
      using True by (simp add: p'_def)
  next
    case False
    then show ?thesis
      using pk by (simp add: p'_def)
  qed
  have p'e: "\<bar>p' - (p + (if c then 1 else 0))\<bar> \<le> ?N / 2 ^ 53"
  proof (cases c)
    case True
    have "\<bar>round64 (p + 1) - (p + 1)\<bar> \<le> ?N / 2 ^ 53"
      using p0 pk K1 by (intro round64_error) simp_all
    then show ?thesis
      using True by (simp add: p'_def)
  next
    case False
    then show ?thesis
      using K1 by (simp add: p'_def)
  qed
  have Npos: "0 < ?N"
    using K1 by simp
  have d0: "0 \<le> p' / ?N"
    using p'0 Npos by simp
  have d1: "p' / ?N \<le> 1"
    using p'n Npos by simp
  have r0: "0 \<le> r'"
    unfolding r'_def using d0 by (rule round64_nonneg)
  have r1: "r' \<le> 1"
  proof -
    have "round64 (p' / ?N) \<le> real_of_int 1"
      using d0 d1 by (intro round64_le_int) simp_all
    then show ?thesis
      by (simp add: r'_def)
  qed
  have re: "\<bar>r' - p' / ?N\<bar> \<le> 1 / 2 ^ 53"
    unfolding r'_def using d0 d1 by (rule round64_error) simp
  have rn: "\<bar>r' * ?N - p'\<bar> \<le> ?N / 2 ^ 53"
  proof -
    have "r' * ?N - p' = (r' - p' / ?N) * ?N"
      using Npos by (simp add: field_simps)
    then have "\<bar>r' * ?N - p'\<bar> = \<bar>r' - p' / ?N\<bar> * ?N"
      using Npos by (simp add: abs_mult)
    also have "\<dots> \<le> (1 / 2 ^ 53) * ?N"
      using re Npos by (intro mult_right_mono) simp_all
    finally show ?thesis
      by simp
  qed
  let ?t = "s + (if c then 1 else 0)"
  have "r' * ?N - ?t
          = (r' * ?N - p') + (p' - (p + (if c then 1 else 0))) + (p - ?r * ?K) + (?r * ?K - s)"
    by simp
  then have "\<bar>r' * ?N - ?t\<bar>
               \<le> \<bar>r' * ?N - p'\<bar> + \<bar>p' - (p + (if c then 1 else 0))\<bar> + \<bar>p - ?r * ?K\<bar>
                  + \<bar>?r * ?K - s\<bar>"
    by linarith
  also have "\<dots> \<le> ?N / 2 ^ 53 + ?N / 2 ^ 53 + ?K / 2 ^ 53 + ?K\<^sup>2 / 2 ^ 52"
    using rn p'e pe near by linarith
  also have "\<dots> \<le> ?N\<^sup>2 / 2 ^ 52"
  proof -
    have "?N / 2 ^ 53 + ?N / 2 ^ 53 + ?K / 2 ^ 53 + ?K\<^sup>2 / 2 ^ 52
            = (3 * ?K + 2 + 2 * ?K\<^sup>2) / 2 ^ 53"
      unfolding N by (simp add: field_simps)
    also have "\<dots> \<le> (2 * ?N\<^sup>2) / 2 ^ 53"
    proof (rule divide_right_mono)
      have "?N\<^sup>2 = ?K\<^sup>2 + 2 * ?K + 1"
        unfolding N by (simp add: power2_eq_square algebra_simps)
      then show "3 * ?K + 2 + 2 * ?K\<^sup>2 \<le> 2 * ?N\<^sup>2"
        using K1 by simp
    qed simp
    also have "\<dots> = ?N\<^sup>2 / 2 ^ 52"
      by simp
    finally show ?thesis .
  qed
  finally have bound: "\<bar>r' * ?N - ?t\<bar> \<le> ?N\<^sup>2 / 2 ^ 52" .
  have k1: "k + 1 \<noteq> 1" "?N \<noteq> 0"
    using k(1) Npos by simp_all
  have "add_usage entry c
          = Inr (entry\<lparr>ke_usage_count := k + 1, ke_success_rate := r'\<rparr>)"
    using k1 count
    by (simp add: add_usage_def Let_def float_mul_def float_add_def float_div_def fk fn
        r'_def p'_def p_def)
  then show ?thesis
    using r0 r1 bound by simp
qed

lemma add_usages_invariant:
  assumes "ke_usage_count entry = 0"
  shows "length calls < 2 ^ 53 \<Longrightarrow>
         \<exists>final. add_usages entry calls = Inr final
           \<and> ke_usage_count final = int (length calls)
           \<and> (calls \<noteq> [] \<longrightarrow>
                0 \<le> ke_success_rate final \<and> ke_success_rate final \<le> 1
                \<and> \<bar>ke_success_rate final * real (length calls) - real (successes calls)\<bar>
                    \<le> (real (length calls))\<^sup>2 / 2 ^ 52)"
proof (induction calls rule: rev_induct)
  case Nil
  show ?case
    using assms by simp
next
  case (snoc c calls)
  have len: "length calls < 2 ^ 53"
    using snoc.prems by simp
  obtain e where e: "add_usages entry calls = Inr e" "ke_usage_count e = int (length calls)"
    and inv: "calls \<noteq> [] \<longrightarrow>
                0 \<le> ke_success_rate e \<and> ke_success_rate e \<le> 1
                \<and> \<bar>ke_success_rate e * real (length calls) - real (successes calls)\<bar>
                    \<le> (real (length calls))\<^sup>2 / 2 ^ 52"
    using snoc.IH [OF len] by blast
  have step: "add_usages entry (calls @ [c]) = add_usage e c"
    by (simp add: add_usages_snoc e(1))
  show ?case
  proof (cases "calls = []")
    case True
    then have "ke_usage_count e = 0"
      using e(2) by simp
    then show ?thesis
      unfolding step using True by (simp add: add_usage_first successes_def)
  next
    case False
    let ?k = "int (length calls)"
    have k: "1 \<le> ?k" "?k + 1 < 2 ^ 53"
    proof -
      show "1 \<le> ?k"
        using False by (cases calls) simp_all
      have "int (length (calls @ [c])) < int (2 ^ 53)"
        using snoc.prems by (simp only: of_nat_less_iff)
      then show "?k + 1 < 2 ^ 53"
        by simp
    qed
    have near: "\<bar>ke_success_rate e * of_int ?k - real (successes calls)\<bar>
                  \<le> (of_int ?k)\<^sup>2 / 2 ^ 52"
      using inv False by simp
    obtain e' where e': "add_usage e c = Inr e'" "ke_usage_count e' = ?k + 1"
      "0 \<le> ke_success_rate e'" "ke_success_rate e' \<le> 1"
      "\<bar>ke_success_rate e' * of_int (?k + 1) - (real (successes calls) + (if c then 1 else 0))\<bar>
         \<le> (of_int (?k + 1))\<^sup>2 / 2 ^ 52"
      using add_usage_later [OF e(2) k _ _ near, of c] inv False by blast
    have l: "real (length (calls @ [c])) = of_int (?k + 1)"
      by simp
    have s: "real (successes (calls @ [c])) = real (successes calls) + (if c then 1 else 0)"
      by (simp add: successes_snoc)
    show ?thesis
      unfolding step l s using e' by simp
  qed
qed

lemma add_usages_rate:
  assumes "ke_usage_count entry = 0" and "calls \<noteq> []" and "length calls < 2 ^ 53"
  shows "\<exists>final. add_usages entry calls = Inr final
           \<and> ke_usage_count final = int (length calls)
           \<and> 0 \<le> ke_success_rate final \<and> ke_success_rate final \<le> 1
           \<and> \<bar>ke_success_rate final - real (successes calls) / real (length calls)\<bar>
               \<le> real (length calls) / 2 ^ 52"
proof -
  let ?n = "real (length calls)"
  obtain final where f: "add_usages entry calls = Inr final"
    "ke_usage_count final = int (length calls)"
    "0 \<le> ke_success_rate final" "ke_success_rate final \<le> 1"
    and near: "\<bar>ke_success_rate final * ?n - real (successes calls)\<bar> \<le> ?n\<^sup>2 / 2 ^ 52"
    using add_usages_invariant [OF assms(1,3)] assms(2) by blast
  have n: "0 < ?n"
    using assms(2) by simp
  have "ke_success_rate final - real (successes calls) / ?n
          = (ke_success_rate final * ?n - real (successes calls)) / ?n"
    using n by (simp add: field_simps)
  then have "\<bar>ke_success_rate final - real (successes calls) / ?n\<bar>
               = \<bar>ke_success_rate final * ?n - real (successes calls)\<bar> / ?n"
    using n by (simp add: abs_divide del: of_nat_0_less_iff)
  also have "\<dots> \<le> (?n\<^sup>2 / 2 ^ 52) / ?n"
    using near n by (intro divide_right_mono) simp_all
  also have "\<dots> = ?n / 2 ^ 52"
    using n by (simp add: power2_eq_square)
  finally show ?thesis
    using f by blast
qed

text \<open>When every call is successful, the stored rate is exactly 1.\<close>

lemma add_usages_all_successful:
  assumes "ke_usage_count entry = 0" and "calls \<noteq> []" and "length calls < 2 ^ 53"
    and "\<forall>c \<in> set calls. c"
  shows "\<exists>final. add_usages entry calls = Inr final \<and> ke_success_rate final = 1"
  using assms(2-4)
proof (induction calls rule: rev_induct)
  case Nil
  then show ?case
    by simp
next
  case (snoc c calls)
  have c: "c"
    using snoc.prems by simp
  have len: "length calls < 2 ^ 53"
    using snoc.prems by simp
  obtain e where e: "add_usages entry calls = Inr e" "ke_usage_count e = int (length calls)"
    using add_usages_invariant [OF assms(1) len] by blast
  have step: "add_usages entry (calls @ [c]) = add_usage e c"
    by (simp add: add_usages_snoc e(1))
  show ?case
  proof (cases "calls = []")
    case True
    then have "ke_usage_count e = 0"
      using e(2) by simp
    then show ?thesis
      unfolding step using c by (simp add: add_usage_first)
  next
    case False
    then obtain e' where e': "add_usages entry calls = Inr e'" "ke_success_rate e' = 1"
      using snoc.IH len snoc.prems by auto
    have r: "ke_success_rate e = 1"
      using e e' by simp
    let ?k = "int (length calls)"
    have k: "1 \<le> ?k" "?k + 1 < 2 ^ 53"
    proof -
      show "1 \<le> ?k"
        using False by (cases calls) simp_all
      have "int (length (calls @ [c])) < int (2 ^ 53)"
        using snoc.prems(2) by (simp only: of_nat_less_iff)
      then show "?k + 1 < 2 ^ 53"
        by simp
    qed
    have fk: "float_of_int ?k = of_int ?k"
      using k by (intro float_of_int_exact) simp_all
    have fn: "float_of_int (?k + 1) = of_int (?k + 1)"
      using k by (intro float_of_int_exact) simp_all
    have a: "round64 (of_int ?k) = of_int ?k"
      using k by (intro round64_int) simp_all
    have b: "round64 (of_int (?k + 1)) = of_int (?k + 1)"
      using k by (intro round64_int) simp_all
    have one: "round64 1 = 1"
      using round64_int [of 1] by simp
    have a': "round64 (real (length calls)) = real (length calls)"
      using a by simp
    have b'': "round64 (real (length calls) + 1) = real (length calls) + 1"
      using b by (simp add: add.commute)
    have nz: "real_of_int ?k + 1 \<noteq> 0" "?k + 1 \<noteq> 1"
      using False by simp_all
    have "add_usage e c = Inr (e\<lparr>ke_usage_count := ?k + 1, ke_success_rate := 1\<rparr>)"
      using c e(2) r nz False
      by (simp add: add_usage_def Let_def float_mul_def float_add_def float_div_def fk fn a' b'' one)
    then show ?thesis
      unfolding step by simp
  qed
qed

text \<open>
  Claim C10, as stated. The claim has the stored rate equal to the number of successful
  calls over the usage count. After the 23 calls of \<open>rounding_calls\<close> on a fresh entry
  the usage count is 23 and 15 calls were successful, but the stored rate is
  \<open>5874260383526733 / 2 ^ 53\<close>, printed 0.6521739130434782, while the quotient 15 / 23 that
  Python computes is \<open>5874260383526734 / 2 ^ 53\<close>, printed 0.6521739130434783: the running
  update rounds three times in every call, and the roundings do not cancel.
\<close>

theorem add_usage_rate_differs_from_quotient:
  "add_usages fresh_entry rounding_calls
     = Inr (fresh_entry\<lparr>ke_usage_count := 23,
                         ke_success_rate := 5874260383526733 / 9007199254740992\<rparr>)
   \<and> successes rounding_calls = 15
   \<and> float_div (float_of_int (int (successes rounding_calls))) (float_of_int 23)
       = Inr (5874260383526734 / 9007199254740992)"
proof -
  have a: "add_usages fresh_entry rounding_calls
             = Inr (fresh_entry\<lparr>ke_usage_count := 23,
                                 ke_success_rate := 5874260383526733 / 9007199254740992\<rparr>)"
    by (simp add: rounding_calls_def fresh_entry_def add_usage_def float_of_int_def float_mul_def
        float_add_def float_div_def round64_def exponent_def round_half_even_def pow2_def
        bit_length.simps Let_def)
  have b: "successes rounding_calls = 15"
    by (simp add: rounding_calls_def successes_def)
  have c: "float_div (float_of_int 15) (float_of_int 23)
             = Inr (5874260383526734 / 9007199254740992)"
    by (simp add: float_of_int_def float_div_def round64_def exponent_def round_half_even_def
        pow2_def bit_length.simps Let_def)
  show ?thesis
    using a c unfolding b by simp
qed

text \<open>
  Claim C10, amended. For an entry whose usage count is 0 and a non-empty sequence of
  fewer than \<open>2 ^ 53\<close> calls of \<open>add_usage\<close>, no call raises, the usage count afterwards is the
  number of calls, the stored rate differs from the number of successful calls over the
  usage count by at most the number of calls over \<open>2 ^ 52\<close>, and after every call of the
  sequence the stored rate lies between 0 and 1.
\<close>

theorem add_usage_running_rate_rounded:
  assumes "ke_usage_count entry = 0" and "calls \<noteq> []" and "length calls < 2 ^ 53"
  shows "\<exists>final. add_usages entry calls = Inr final
           \<and> ke_usage_count final = int (length calls)
           \<and> \<bar>ke_success_rate final
                - real (successes calls) / real_of_int (ke_usage_count final)\<bar>
               \<le> real (length calls) / 2 ^ 52
           \<and> (\<forall>k. 0 < k \<and> k \<le> length calls \<longrightarrow>
                  (\<exists>e. add_usages entry (take k calls) = Inr e
                       \<and> 0 \<le> ke_success_rate e \<and> ke_success_rate e \<le> 1))"
proof -
  have prefix: "\<exists>e. add_usages entry (take k calls) = Inr e
                    \<and> 0 \<le> ke_success_rate e \<and> ke_success_rate e \<le> 1"
    if "0 < k" "k \<le> length calls" for k
  proof -
    have "take k calls \<noteq> []"
      using that assms(2) by (cases calls) auto
    moreover have "length (take k calls) < 2 ^ 53"
      using assms(3) by simp
    ultimately show ?thesis
      using add_usages_rate [OF assms(1), of "take k calls"] by blast
  qed
  obtain final where f: "add_usages entry calls = Inr final"
    "ke_usage_count final = int (length calls)"
    "\<bar>ke_success_rate final - real (successes calls) / real (length calls)\<bar>
       \<le> real (length calls) / 2 ^ 52"
    using add_usages_rate [OF assms] by blast
  have "real_of_int (ke_usage_count final) = real (length calls)"
    using f(2) by simp
  then show ?thesis
    using f prefix by auto
qed

theorem add_usage_running_rate_rounded_witness:
  "\<exists>final. add_usages fresh_entry [True, False, True] = Inr final
     \<and> ke_usage_count final = 3
     \<and> \<bar>ke_success_rate final - 2 / 3\<bar> \<le> 3 / 2 ^ 52"
proof -
  have a: "ke_usage_count fresh_entry = 0"
    by (simp add: fresh_entry_def)
  have b: "[True, False, True] \<noteq> []"
    by simp
  have c: "length [True, False, True] < 2 ^ 53"
    by simp
  obtain final where f: "add_usages fresh_entry [True, False, True] = Inr final"
    "ke_usage_count final = int (length [True, False, True])"
    "\<bar>ke_success_rate final
       - real (successes [True, False, True]) / real_of_int (ke_usage_count final)\<bar>
       \<le> real (length [True, False, True]) / 2 ^ 52"
    using add_usage_running_rate_rounded [OF a b c] by blast
  have n: "ke_usage_count final = 3"
    using f(2) by simp
  have "\<bar>ke_success_rate final - 2 / 3\<bar> \<le> 3 / 2 ^ 52"
    using f(3) unfolding n by (simp add: successes_def)
  then show ?thesis
    using f(1) n by blast
qed

subsection \<open>A failed knowledge search\<close>

text \<open>
  When the lookup of the store raises, the store answers the empty list and so does the
  knowledge manager, whatever the keyword extraction did.
\<close>

lemma failed_lookup_gives_nothing:
  "\<not> db \<Longrightarrow> search_similar_solutions store db completion request = []"
  by (simp add: search_similar_solutions_def ks_search_solutions_def
      rank_solutions_by_similarity_def Let_def)

lemma after_first_development:
  assumes "wf_errors state = []" and "wf_iteration_count state = 0" and "wf_max_iterations state = 3"
  shows "next_node develop_solution_node (develop_solution state call) = handle_error_node
         \<longleftrightarrow> \<not> (\<exists>s. call = Inr (Some s) \<and> sol_operations s \<noteq> [])"
  using assms
  by (auto simp: develop_solution_def Let_def after_development_def follow_def
      development_edges_def split: sum.splits option.splits)

text \<open>
  Claim C8, as stated. The claim has a failed search recorded as a warning and never
  routed to error handling. When the database and the completion call raise, the
  knowledge manager returns the empty list and the workflow state has no warning after
  the search node. When the search call itself raises into the workflow, its handler
  appends to the errors, and after a development that succeeds the condition
  \<open>_after_development\<close> sends the run to the error node.
\<close>

theorem failed_search_records_no_warning:
  "search_similar_solutions aged_store False (Inl ''completion timed out'') example_request = []
   \<and> wf_warnings
        (search_knowledge (initialize (initial_state example_request True))
           (wp_search (system_workflow_ports search_failing_system example_request))) = []
   \<and> next_node develop_solution_node
        (develop_solution
           (search_knowledge (initialize (initial_state example_request True))
              (Inl ''connection refused''))
           (Inr (Some example_solution)))
       = handle_error_node"
  by (simp add: failed_lookup_gives_nothing system_workflow_ports_def search_failing_system_def
      search_knowledge_def initialize_def initial_state_def Let_def develop_solution_def
      after_development_def follow_def development_edges_def example_solution_def)

text \<open>
  The handler of the search node: an exception of the search call is an error of the
  run, and the first development is followed by the error node whatever it returns.
\<close>

lemma search_exception_routes_to_error:
  "next_node develop_solution_node
     (develop_solution (search_knowledge state (Inl e)) call) = handle_error_node"
  by (auto simp: search_knowledge_def develop_solution_def Let_def after_development_def
      follow_def development_edges_def split: sum.splits option.splits)

text \<open>
  Claim C8, amended. A failure of the knowledge search is handled in one of two ways.
  When the store lookup inside the knowledge manager raises, the knowledge manager
  absorbs the failure and returns an empty result; the workflow accepts it, records
  neither a warning nor an error, and enters development; after that development the
  run goes to error handling exactly when development itself failed (its call raised
  or returned no solution or a solution without operations). When the search call
  itself raises into the workflow, the failure is recorded as an error and not as a
  warning; development still runs once, and the run then goes to error handling.
\<close>

theorem failed_search_handling:
  fixes S :: system_ports and request :: DevelopmentRequest and human_in_loop :: bool
  assumes "\<not> sp_db S"
  defines "P \<equiv> system_workflow_ports S request"
  defines "searched \<equiv>
    search_knowledge (initialize (initial_state request human_in_loop)) (wp_search P)"
  shows "wp_search P = Inr []
       \<and> wf_similar_solutions searched = []
       \<and> wf_errors searched = []
       \<and> wf_warnings searched = []
       \<and> next_node search_knowledge_node searched = develop_solution_node
       \<and> (\<forall>call. next_node develop_solution_node (develop_solution searched call)
                    = handle_error_node
                  \<longleftrightarrow> \<not> (\<exists>s. call = Inr (Some s) \<and> sol_operations s \<noteq> []))
       \<and> (\<forall>state e call.
              wf_errors (search_knowledge state (Inl e)) = wf_errors state @ [msg_search_failed @ e]
              \<and> wf_warnings (search_knowledge state (Inl e)) = wf_warnings state
              \<and> next_node search_knowledge_node (search_knowledge state (Inl e))
                  = develop_solution_node
              \<and> next_node develop_solution_node
                    (develop_solution (search_knowledge state (Inl e)) call)
                  = handle_error_node)"
proof -
  have s: "wp_search P = Inr []"
    using assms(1) by (simp add: P_def system_workflow_ports_def failed_lookup_gives_nothing)
  have f: "wf_similar_solutions searched = []" "wf_errors searched = []"
    "wf_warnings searched = []" "wf_iteration_count searched = 0"
    "wf_max_iterations searched = 3"
    unfolding searched_def s
    by (simp_all add: search_knowledge_def initialize_def initial_state_def Let_def)
  have h: "wf_errors (search_knowledge state (Inl e)) = wf_errors state @ [msg_search_failed @ e]
         \<and> wf_warnings (search_knowledge state (Inl e)) = wf_warnings state"
    for state e
    by (simp add: search_knowledge_def Let_def)
  show ?thesis
    using s f h after_first_development [of searched] search_exception_routes_to_error
    by simp
qed

theorem failed_search_handling_witness:
  "wp_search (system_workflow_ports search_failing_system example_request) = Inr []
   \<and> next_node develop_solution_node
        (develop_solution
           (search_knowledge (initialize (initial_state example_request True))
              (wp_search (system_workflow_ports search_failing_system example_request)))
           (Inr (Some example_solution)))
       = validate_solution_node
   \<and> wf_errors (search_knowledge (initial_state example_request True) (Inl ''connection refused''))
       = [msg_search_failed @ ''connection refused'']"
proof -
  have "\<not> sp_db search_failing_system"
    by (simp add: search_failing_system_def stalling_system_def)
  from failed_search_handling [OF this, of example_request True]
  show ?thesis
    by (simp add: example_solution_def develop_solution_def Let_def after_development_def
        follow_def development_edges_def search_knowledge_def initialize_def initial_state_def)
qed

subsection \<open>Termination of the workflow\<close>


























lemma reject_cycle_step:
  assumes dev: "\<And>n. \<exists>s. wp_develop P n = Inr (Some s) \<and> sol_operations s \<noteq> []"
    and val: "\<And>n s. \<exists>r. wp_validate P n s = Inr r \<and> \<not> vr_is_valid r"
    and cyc: "reject_cycle node state"
  shows "node \<noteq> END
       \<and> reject_cycle (next_node node (run_node P n node state)) (run_node P n node state)"
proof -
  consider "node = develop_solution_node" | "node = validate_solution_node"
    | "node = review_solution_node"
    using cyc by (auto simp: reject_cycle_def)
  then show ?thesis
  proof cases
    case 1
    obtain s where s: "wp_develop P n = Inr (Some s)" "sol_operations s \<noteq> []"
      using dev by blast
    show ?thesis
      using cyc 1 s
      by (simp add: reject_cycle_def develop_solution_def Let_def after_development_def
          follow_def development_edges_def)
  next
    case 2
    then obtain s where cur: "wf_current_solution state = Some s"
      using cyc by (auto simp: reject_cycle_def)
    obtain r where r: "wp_validate P n s = Inr r" "\<not> vr_is_valid r"
      using val by blast
    show ?thesis
      using cyc 2 cur r
      by (simp add: reject_cycle_def validate_solution_def Let_def after_validation_def
          follow_def validation_edges_def)
  next
    case 3
    then obtain s r where cur: "wf_current_solution state = Some s"
      and res: "wf_validation_result state = Some r" "\<not> vr_is_valid r"
      using cyc by (auto simp: reject_cycle_def)
    show ?thesis
      using cyc 3 cur res
      by (simp add: reject_cycle_def review_solution_def Let_def after_review_def
          follow_def review_edges_def)
  qed
qed

lemma reject_cycle_reaches_limit:
  assumes dev: "\<And>n. \<exists>s. wp_develop P n = Inr (Some s) \<and> sol_operations s \<noteq> []"
    and val: "\<And>n s. \<exists>r. wp_validate P n s = Inr r \<and> \<not> vr_is_valid r"
  shows "reject_cycle node state \<Longrightarrow> run limit P n node state = None"
proof (induction limit arbitrary: n node state)
  case 0
  then show ?case
    using reject_cycle_step [OF dev val] by simp
next
  case (Suc limit)
  have "node \<noteq> END"
    and "reject_cycle (next_node node (run_node P n node state)) (run_node P n node state)"
    using reject_cycle_step [OF dev val Suc.prems, of n] by simp_all
  then show ?case
    using Suc.IH by (simp add: Let_def)
qed

lemma low_quality_develop:
  "\<exists>s. wp_develop low_quality_agents n = Inr (Some s) \<and> sol_operations s \<noteq> []"
  by (simp add: low_quality_agents_def example_solution_def)

lemma low_quality_validate:
  "\<exists>r. wp_validate low_quality_agents n s = Inr r \<and> \<not> vr_is_valid r"
  by (simp add: low_quality_agents_def validation_of_def)

lemma single_iteration_reaches_limit:
  "workflow_ainvoke limit low_quality_agents
     ((initial_state request human_in_loop)\<lparr>wf_max_iterations := 1\<rparr>) = Inl msg_recursion_limit"
proof -
  let ?s0 = "(initial_state request human_in_loop)\<lparr>wf_max_iterations := 1\<rparr>"
  let ?s2 = "search_knowledge (initialize ?s0) (wp_search low_quality_agents)"
  have "run limit low_quality_agents 0 initialize_node ?s0 = None"
  proof -
    consider "limit = 0" | "limit = Suc 0" | k where "limit = Suc (Suc k)"
      by (metis not0_implies_Suc)
    then show ?thesis
    proof cases
      case 3
      have cyc: "reject_cycle develop_solution_node ?s2"
        by (simp add: reject_cycle_def search_knowledge_def initialize_def initial_state_def
            low_quality_agents_def Let_def)
      have "run limit low_quality_agents 0 initialize_node ?s0
              = run k low_quality_agents 2 develop_solution_node ?s2"
        unfolding 3 by (simp add: eval_nat_numeral Let_def)
      then show ?thesis
        using reject_cycle_reaches_limit [OF low_quality_develop low_quality_validate cyc] by simp
    qed (simp_all add: Let_def)
  qed
  then show ?thesis
    by (simp add: workflow_ainvoke_def)
qed




end
